theory Spec2Isabelle
  imports Complex_Main
begin

section \<open>Python exceptions\<close>

text \<open>
  The exceptions the modelled code can raise. A method that raises after it has already
  mutated its object returns the mutated state together with the error, because the
  caller can still observe the object.
\<close>

datatype error =
  ZeroDivisionError | FileNotFoundError | FileExistsError | NotADirectoryError
  | IsADirectoryError | RuntimeError

section \<open>RL\_loops/training\_policy\_loop.py\<close>

subsection \<open>Configuration, collaborators and loop state\<close>

text \<open>
  The values \<open>training_loop\<close> reads from \<open>config_data\<close> (already converted by
  \<open>int(...)\<close> and \<open>float(...)\<close>; Python integers are unbounded, floats are idealised
  as reals).
\<close>

record config =
  algorithm_name :: string
  steps_training :: int
  evaluation_interval :: int
  log_interval :: int
  number_eval_episodes :: int
  max_steps_per_batch :: int
  epsilon_min :: real
  epsilon_decay :: real
  G :: int
  batch_size :: int
  steps_exploration :: int

definition is_ppo :: "config \<Rightarrow> bool" where
  "is_ppo cfg = (algorithm_name cfg = ''PPO'')"

definition is_dqn :: "config \<Rightarrow> bool" where
  "is_dqn cfg = (algorithm_name cfg = ''DQN'')"

text \<open>
  The environment, the random generator and the evaluation runner are external
  collaborators. What they answer at step \<open>t\<close> is given by an oracle: the reward and
  the two termination flags of \<open>env.step\<close>, the value of \<open>random.random()\<close>, and the
  table \<open>evaluate_policy_loop\<close> returns (rows keyed by their "Total Timesteps" value).
\<close>

record 'r world =
  reward_at :: "int \<Rightarrow> real"
  done_at :: "int \<Rightarrow> bool"
  truncated_at :: "int \<Rightarrow> bool"
  random_at :: "int \<Rightarrow> real"
  evaluation_log_at :: "int \<Rightarrow> (int \<times> 'r) list"

datatype action = Sampled int | FromPolicy int

datatype env_id = TrainingEnv | EvaluationEnv

record transition =
  tr_step :: int
  tr_action :: action
  tr_reward :: real
  tr_done :: bool

text \<open>
  Every call the loop makes on a collaborator is recorded, in order, as an event.
  \<open>TrainPolicy t b n\<close> is the call \<open>rl_agent.train_policy(memory, batch_size)\<close> made in
  iteration \<open>t\<close> with batch size \<open>b\<close> while the memory holds \<open>n\<close> transitions.
  \<open>DecayExploration t r\<close> records the exploration rate \<open>r\<close> that iteration \<open>t\<close> compares
  \<open>random.random()\<close> against. The percentage of \<open>update_progress_signal\<close> and the
  wall-clock estimates are floating-point and clock values and carry no payload here.
\<close>

datatype 'r event =
    PrintInterrupted
  | SampleAction int
  | SelectActionFromPolicy int
  | DecayExploration int real
  | EnvStep int
  | AddExperience int
  | TrainPolicy int int nat
  | TrainPolicyBatch int nat
  | LogTraining int real int int
  | SaveCheckpoint int
  | EnvReset int
  | EvaluatePolicyLoop env_id int int
  | UpdatePlotEval "(int \<times> 'r) list"
  | UpdateProgress int
  | UpdateStep int
  | SaveLogs
  | PolicyLoopTest env_id
  | TrainingCompletedSignal bool

record 'r loop_state =
  memory :: "transition list"
  exploration_rate :: real
  episode_timesteps :: int
  episode_num :: int
  episode_reward :: real
  training_completed :: bool
  trace :: "'r event list"

definition emit :: "'r event \<Rightarrow> 'r loop_state \<Rightarrow> 'r loop_state" where
  "emit e s = s\<lparr>trace := trace s @ [e]\<rparr>"

text \<open>
  The state before the first iteration: an empty \<open>MemoryBuffer\<close>, \<open>exploration_rate = 1\<close>
  (the variable only exists for DQN; the other families never read it), zeroed episode
  accumulators and \<open>training_completed = True\<close>.
\<close>

definition initial_state :: "'r loop_state" where
  "initial_state =
     \<lparr>memory = [], exploration_rate = 1, episode_timesteps = 0, episode_num = 0,
      episode_reward = 0, training_completed = True, trace = []\<rparr>"

subsection \<open>pandas: \<open>groupby("Total Timesteps", as_index=False).last()\<close>\<close>

text \<open>
  One row per distinct key, keys in ascending order (pandas sorts group keys), each row
  the last one of its group. The cells of a row are taken to be non-null, so the last
  row of a group is what \<open>last()\<close> returns.
\<close>

definition groupby_last :: "(int \<times> 'r) list \<Rightarrow> (int \<times> 'r) list" where
  "groupby_last df =
     map (\<lambda>k. last (filter (\<lambda>row. fst row = k) df)) (sort (remdups (map fst df)))"

subsection \<open>One iteration of the loop\<close>

text \<open>Python's \<open>a % b == 0\<close>: raises on a zero divisor, floored remainder otherwise.\<close>

definition py_mod_is_zero :: "int \<Rightarrow> int \<Rightarrow> error + bool" where
  "py_mod_is_zero a b = (if b = 0 then Inl ZeroDivisionError else Inr (a mod b = 0))"

text \<open>The decay statement pair of lines 152-153.\<close>

definition decay_exploration :: "config \<Rightarrow> real \<Rightarrow> real" where
  "decay_exploration cfg rate = max (epsilon_min cfg) (rate * epsilon_decay cfg)"

text \<open>Action selection (lines 146-162); returns the action with the new state.\<close>

definition select_action :: "config \<Rightarrow> 'r world \<Rightarrow> int \<Rightarrow> 'r loop_state \<Rightarrow> action \<times> 'r loop_state" where
  "select_action cfg w t s =
     (if is_ppo cfg then (FromPolicy t, emit (SelectActionFromPolicy t) s)
      else if is_dqn cfg then
        (if t < steps_exploration cfg then (Sampled t, emit (SampleAction t) s)
         else
           (let rate = decay_exploration cfg (exploration_rate s);
                s1 = emit (DecayExploration t rate) (s\<lparr>exploration_rate := rate\<rparr>)
            in if random_at w t < rate then (Sampled t, emit (SampleAction t) s1)
               else (FromPolicy t, emit (SelectActionFromPolicy t) s1)))
      else
        (if t < steps_exploration cfg then (Sampled t, emit (SampleAction t) s)
         else (FromPolicy t, emit (SelectActionFromPolicy t) s)))"

text \<open>
  Modelled from the spec: \<open>RL_memory.memory_buffer.MemoryBuffer\<close> is not among the
  sources; by the Memory Contract \<open>add_experience\<close> appends one transition. The
  definition is \<open>env.step(action)\<close>, \<open>memory.add_experience(...)\<close> and
  \<open>episode_reward += reward\<close> (lines 165-176).
\<close>

definition store_experience :: "'r world \<Rightarrow> int \<Rightarrow> action \<Rightarrow> 'r loop_state \<Rightarrow> 'r loop_state" where
  "store_experience w t a s =
     (let s1 = emit (EnvStep t) s;
          s2 = emit (AddExperience t)
                 (s1\<lparr>memory := memory s1 @
                        [\<lparr>tr_step = t, tr_action = a, tr_reward = reward_at w t,
                          tr_done = done_at w t\<rparr>]\<rparr>)
      in s2\<lparr>episode_reward := episode_reward s2 + reward_at w t\<rparr>)"

text \<open>\<open>for _ in range(G): rl_agent.train_policy(memory, batch_size)\<close>\<close>

fun train_repeat :: "nat \<Rightarrow> int \<Rightarrow> int \<Rightarrow> 'r loop_state \<Rightarrow> 'r loop_state" where
  "train_repeat 0 t b s = s"
| "train_repeat (Suc n) t b s =
     train_repeat n t b (emit (TrainPolicy t b (length (memory s))) s)"

text \<open>
  Modelled from the spec: the PPO variant is not among the sources; by the spec its
  update consumes the accumulated batch, which is then cleared. The rest of the
  definition is the training cadence of lines 178-192.
\<close>

definition train_phase :: "config \<Rightarrow> int \<Rightarrow> 'r loop_state \<Rightarrow> 'r loop_state \<times> error option" where
  "train_phase cfg t s =
     (if is_ppo cfg then
        (case py_mod_is_zero (t + 1) (max_steps_per_batch cfg) of
           Inl e \<Rightarrow> (s, Some e)
         | Inr True \<Rightarrow> ((emit (TrainPolicyBatch t (length (memory s))) s)\<lparr>memory := []\<rparr>, None)
         | Inr False \<Rightarrow> (s, None))
      else if is_dqn cfg \<and> t > batch_size cfg then
        (train_repeat (nat (G cfg)) t (batch_size cfg) s, None)
      else if \<not> is_ppo cfg \<and> \<not> is_dqn cfg \<and> t \<ge> steps_exploration cfg then
        (train_repeat (nat (G cfg)) t (batch_size cfg) s, None)
      else (s, None))"

text \<open>Episode completion (lines 195-231), without the wall-clock signals.\<close>

definition episode_phase :: "config \<Rightarrow> 'r world \<Rightarrow> int \<Rightarrow> 'r loop_state \<Rightarrow> 'r loop_state \<times> error option" where
  "episode_phase cfg w t s =
     (if done_at w t \<or> truncated_at w t then
        (let s1 = emit (LogTraining (episode_num s + 1) (episode_reward s)
                          (episode_timesteps s) (t + 1)) s
         in case py_mod_is_zero (t + 1) (log_interval cfg) of
              Inl e \<Rightarrow> (s1, Some e)
            | Inr hit \<Rightarrow>
                (let s2 = (if hit then emit (SaveCheckpoint t) s1 else s1);
                     s3 = emit (EnvReset t) s2
                 in (s3\<lparr>episode_timesteps := 0, episode_num := episode_num s3 + 1,
                        episode_reward := 0\<rparr>, None)))
      else (s, None))"

text \<open>Periodic evaluation (lines 233-246).\<close>

definition evaluate_phase :: "config \<Rightarrow> 'r world \<Rightarrow> int \<Rightarrow> 'r loop_state \<Rightarrow> 'r loop_state \<times> error option" where
  "evaluate_phase cfg w t s =
     (case py_mod_is_zero (t + 1) (evaluation_interval cfg) of
        Inl e \<Rightarrow> (s, Some e)
      | Inr True \<Rightarrow>
          (emit (UpdatePlotEval (groupby_last (evaluation_log_at w t)))
             (emit (EvaluatePolicyLoop EvaluationEnv (number_eval_episodes cfg) t) s), None)
      | Inr False \<Rightarrow> (s, None))"

text \<open>Progress signals (lines 248-250).\<close>

definition report_phase :: "int \<Rightarrow> 'r loop_state \<Rightarrow> 'r loop_state" where
  "report_phase t s = emit (UpdateStep (t + 1)) (emit (UpdateProgress t) s)"

text \<open>The loop body after the cancellation check (lines 142-250).\<close>

definition loop_body :: "config \<Rightarrow> 'r world \<Rightarrow> int \<Rightarrow> 'r loop_state \<Rightarrow> 'r loop_state \<times> error option" where
  "loop_body cfg w t s =
     (let s0 = s\<lparr>episode_timesteps := episode_timesteps s + 1\<rparr>;
          (a, s1) = select_action cfg w t s0;
          s2 = store_experience w t a s1
      in case train_phase cfg t s2 of
           (s3, Some e) \<Rightarrow> (s3, Some e)
         | (s3, None) \<Rightarrow>
             (case episode_phase cfg w t s3 of
                (s4, Some e) \<Rightarrow> (s4, Some e)
              | (s4, None) \<Rightarrow>
                  (case evaluate_phase cfg w t s4 of
                     (s5, Some e) \<Rightarrow> (s5, Some e)
                   | (s5, None) \<Rightarrow> (report_phase t s5, None))))"

subsection \<open>The loop and its finalisation\<close>

text \<open>Lines 137-140: the branch taken when \<open>is_running\<close> is false.\<close>

definition interrupt :: "'r loop_state \<Rightarrow> 'r loop_state" where
  "interrupt s = (emit PrintInterrupted s)\<lparr>training_completed := False\<rparr>"

text \<open>
  \<open>for total_step_counter in range(steps_training)\<close>: \<open>run_steps cfg w is_running k t s\<close>
  runs the \<open>k\<close> remaining iterations starting with index \<open>t\<close>. \<open>is_running\<close> is the
  parameter of \<open>training_loop\<close>, a Boolean bound once at the call.
\<close>

fun run_steps :: "config \<Rightarrow> 'r world \<Rightarrow> bool \<Rightarrow> nat \<Rightarrow> int \<Rightarrow> 'r loop_state \<Rightarrow> 'r loop_state \<times> error option" where
  "run_steps cfg w is_running 0 t s = (s, None)"
| "run_steps cfg w is_running (Suc k) t s =
     (if \<not> is_running then (interrupt s, None)
      else case loop_body cfg w t s of
             (s', Some e) \<Rightarrow> (s', Some e)
           | (s', None) \<Rightarrow> run_steps cfg w is_running k (t + 1) s')"

text \<open>Lines 252-255.\<close>

definition finalize :: "'r loop_state \<Rightarrow> 'r loop_state" where
  "finalize s =
     emit (TrainingCompletedSignal (training_completed s))
       (emit (PolicyLoopTest TrainingEnv) (emit SaveLogs s))"

definition training_loop :: "config \<Rightarrow> 'r world \<Rightarrow> bool \<Rightarrow> 'r loop_state \<times> error option" where
  "training_loop cfg w is_running =
     (case run_steps cfg w is_running (nat (steps_training cfg)) 0 initial_state of
        (s, Some e) \<Rightarrow> (s, Some e)
      | (s, None) \<Rightarrow> (finalize s, None))"


subsection \<open>GUI/ui\_utils.py: the worker thread and its stop request\<close>

text \<open>
  \<open>TrainingThread\<close> holds the attribute \<open>_is_running\<close>. \<open>run\<close> passes its current
  value to \<open>training_loop\<close>; \<open>stop\<close> assigns \<open>False\<close> to the attribute.
\<close>

record TrainingThread =
  is_running_attr :: bool

definition TrainingThread_init :: TrainingThread where
  "TrainingThread_init = \<lparr>is_running_attr = True\<rparr>"

definition stop :: "TrainingThread \<Rightarrow> TrainingThread" where
  "stop th = th\<lparr>is_running_attr := False\<rparr>"

definition run :: "config \<Rightarrow> 'r world \<Rightarrow> TrainingThread \<Rightarrow> 'r loop_state \<times> error option" where
  "run cfg w th = training_loop cfg w (is_running_attr th)"

text \<open>
  To let a stop request arrive while the loop is running, the same loop is also given
  step by step. A frame holds the local variables of one call of \<open>training_loop\<close>:
  the parameter \<open>is_running\<close>, the iterations \<open>range\<close> still has to deliver, the
  index of the next one, and the loop state. One \<open>tick\<close> is one pass through the loop
  head: either an iteration, or the exit (by exhaustion or by \<open>break\<close>) followed by
  the finalisation.
\<close>

record 'r frame =
  is_running_local :: bool
  remaining :: nat
  total_step_counter :: int
  locals :: "'r loop_state"
  finished :: bool
  raised :: "error option"

definition enter :: "config \<Rightarrow> bool \<Rightarrow> 'r frame" where
  "enter cfg is_running =
     \<lparr>is_running_local = is_running, remaining = nat (steps_training cfg),
      total_step_counter = 0, locals = initial_state, finished = False, raised = None\<rparr>"

definition tick :: "config \<Rightarrow> 'r world \<Rightarrow> 'r frame \<Rightarrow> 'r frame" where
  "tick cfg w f =
     (if finished f \<or> raised f \<noteq> None then f
      else case remaining f of
             0 \<Rightarrow> f\<lparr>locals := finalize (locals f), finished := True\<rparr>
           | Suc k \<Rightarrow>
               (if \<not> is_running_local f
                then f\<lparr>locals := finalize (interrupt (locals f)), finished := True\<rparr>
                else case loop_body cfg w (total_step_counter f) (locals f) of
                       (s', Some e) \<Rightarrow> f\<lparr>locals := s', raised := Some e\<rparr>
                     | (s', None) \<Rightarrow>
                         f\<lparr>remaining := k, total_step_counter := total_step_counter f + 1,
                           locals := s'\<rparr>))"

text \<open>
  The observer and the worker interleave: the observer may start the thread (which
  calls \<open>run\<close>) and may call \<open>stop\<close>; the worker advances by ticks.
\<close>

datatype schedule_item = StartThread | Tick | StopRequest

record 'r system =
  thread :: TrainingThread
  worker :: "'r frame option"

definition system_init :: "'r system" where
  "system_init = \<lparr>thread = TrainingThread_init, worker = None\<rparr>"

fun exec_item :: "config \<Rightarrow> 'r world \<Rightarrow> schedule_item \<Rightarrow> 'r system \<Rightarrow> 'r system" where
  "exec_item cfg w StartThread sys =
     (case worker sys of
        None \<Rightarrow> sys\<lparr>worker := Some (enter cfg (is_running_attr (thread sys)))\<rparr>
      | Some f \<Rightarrow> sys)"
| "exec_item cfg w Tick sys = sys\<lparr>worker := map_option (tick cfg w) (worker sys)\<rparr>"
| "exec_item cfg w StopRequest sys = sys\<lparr>thread := stop (thread sys)\<rparr>"

fun exec :: "config \<Rightarrow> 'r world \<Rightarrow> schedule_item list \<Rightarrow> 'r system \<Rightarrow> 'r system" where
  "exec cfg w [] sys = sys"
| "exec cfg w (a # as) sys = exec cfg w as (exec_item cfg w a sys)"

subsection \<open>Observations on a trace\<close>

fun is_update_step :: "'r event \<Rightarrow> bool" where
  "is_update_step (UpdateStep n) = True"
| "is_update_step _ = False"

definition steps_done :: "'r event list \<Rightarrow> nat" where
  "steps_done tr = length (filter is_update_step tr)"

fun decay_rate_of :: "'r event \<Rightarrow> real list" where
  "decay_rate_of (DecayExploration t r) = [r]"
| "decay_rate_of _ = []"

definition decay_rates :: "'r event list \<Rightarrow> real list" where
  "decay_rates tr = concat (map decay_rate_of tr)"

text \<open>
  What an event appended by iteration \<open>t\<close>, started in state \<open>s\<close>, can be.
\<close>

fun iteration_event :: "config \<Rightarrow> 'r world \<Rightarrow> int \<Rightarrow> 'r loop_state \<Rightarrow> 'r event \<Rightarrow> bool" where
  "iteration_event cfg w t s PrintInterrupted = False"
| "iteration_event cfg w t s (SampleAction t') = (t' = t)"
| "iteration_event cfg w t s (SelectActionFromPolicy t') = (t' = t)"
| "iteration_event cfg w t s (DecayExploration t' r) =
     (t' = t \<and> is_dqn cfg \<and> \<not> is_ppo cfg \<and> steps_exploration cfg \<le> t \<and>
      r = decay_exploration cfg (exploration_rate s))"
| "iteration_event cfg w t s (EnvStep t') = (t' = t)"
| "iteration_event cfg w t s (AddExperience t') = (t' = t)"
| "iteration_event cfg w t s (TrainPolicy t' b n) =
     (t' = t \<and> b = batch_size cfg \<and> n = Suc (length (memory s)) \<and> \<not> is_ppo cfg \<and>
      (if is_dqn cfg then batch_size cfg < t else steps_exploration cfg \<le> t))"
| "iteration_event cfg w t s (TrainPolicyBatch t' n) = (t' = t \<and> is_ppo cfg)"
| "iteration_event cfg w t s (LogTraining e r n c) = (c = t + 1)"
| "iteration_event cfg w t s (SaveCheckpoint t') = (t' = t)"
| "iteration_event cfg w t s (EnvReset t') = (t' = t)"
| "iteration_event cfg w t s (EvaluatePolicyLoop env k t') =
     (t' = t \<and> env = EvaluationEnv \<and> k = number_eval_episodes cfg \<and>
      evaluation_interval cfg \<noteq> 0 \<and> evaluation_interval cfg dvd t + 1)"
| "iteration_event cfg w t s (UpdatePlotEval df) = (df = groupby_last (evaluation_log_at w t))"
| "iteration_event cfg w t s (UpdateProgress t') = (t' = t)"
| "iteration_event cfg w t s (UpdateStep n) = (n = t + 1)"
| "iteration_event cfg w t s SaveLogs = False"
| "iteration_event cfg w t s (PolicyLoopTest env) = False"
| "iteration_event cfg w t s (TrainingCompletedSignal b) = False"

section \<open>RL\_algorithms: the agents\<close>

subsection \<open>Tensors, losses, the optimiser\<close>

text \<open>
  A tensor is the list of its entries (floats idealised as reals); the parameters of a
  network, as \<open>parameters()\<close> and \<open>state_dict()\<close> list them, are a list of tensors.
  Arithmetic is entry by entry. The code only combines tensors of equal shape (a target
  network is a \<open>deepcopy\<close> of its source; batch columns are reshaped to
  \<open>(batch_size, 1)\<close>), where torch neither broadcasts nor raises.
\<close>

type_synonym tensor = "real list"

type_synonym params = "tensor list"

definition tmul :: "real \<Rightarrow> tensor \<Rightarrow> tensor" where
  "tmul c x = map (\<lambda>v. c * v) x"

definition tadd :: "tensor \<Rightarrow> tensor \<Rightarrow> tensor" where
  "tadd x y = map2 (\<lambda>u v. u + v) x y"

definition tsub :: "tensor \<Rightarrow> tensor \<Rightarrow> tensor" where
  "tsub x y = map2 (\<lambda>u v. u - v) x y"

definition tprod :: "tensor \<Rightarrow> tensor \<Rightarrow> tensor" where
  "tprod x y = map2 (\<lambda>u v. u * v) x y"

definition tminimum :: "tensor \<Rightarrow> tensor \<Rightarrow> tensor" where
  "tminimum x y = map2 (\<lambda>u v. min u v) x y"

definition one_minus :: "tensor \<Rightarrow> tensor" where
  "one_minus x = map (\<lambda>v. 1 - v) x"

definition mean :: "tensor \<Rightarrow> real" where
  "mean x = sum_list x / real (length x)"

definition mse_loss :: "tensor \<Rightarrow> tensor \<Rightarrow> real" where
  "mse_loss x y = mean (map2 (\<lambda>u v. (u - v)\<^sup>2) x y)"

text \<open>
  What \<open>memory.sample_experience(batch_size)\<close> returns, after the conversion to tensors:
  five columns. \<open>'a\<close> is the type of an action (an index for DQN, a vector for the
  continuous variants). The replay memory is not among the sources: sampling is a
  parameter of the model, a function of the memory and the batch size that either raises
  or returns a batch.
\<close>

record 'a batch =
  states :: "tensor list"
  actions :: "'a list"
  rewards :: tensor
  next_states :: "tensor list"
  dones :: tensor

type_synonym ('m, 'a) sampler = "'m \<Rightarrow> int \<Rightarrow> error + 'a batch"

text \<open>
  \<open>x.reshape(batch_size, 1)\<close> on a column of \<open>length x\<close> entries raises a RuntimeError
  unless the column has exactly \<open>batch_size\<close> entries (a size of \<open>-1\<close> is inferred by
  torch and fits every column). The reshaped column has the same entries.
\<close>

definition has_rows :: "'a list \<Rightarrow> int \<Rightarrow> bool" where
  "has_rows x n = (n = - 1 \<or> int (length x) = n)"

text \<open>
  \<open>zero_grad(); loss.backward(); optimiser.step()\<close>, together with the forward passes
  that build the loss, is one step of an optimiser on a loss, seen as a function of the
  parameters the optimiser was built over. It either raises (torch raises a RuntimeError
  on tensors that do not fit together), before anything is written, or maps its own
  state (Adam's moment estimates) and those parameters to new ones, and writes nothing
  else. The optimiser and the network architectures (\<open>networks\<close> modules) are not among
  the sources; they are parameters of the model.
\<close>

type_synonym 'o optimiser_step =
  "'o \<Rightarrow> (params \<Rightarrow> real) \<Rightarrow> params \<Rightarrow> error + params \<times> 'o"

text \<open>
  The target update loop shared by DDPG (lines 139-151) and SAC (lines 191-197):
  \<open>for param, target_param in zip(source, target):
     target_param.data.copy_(tau * param.data + (1 - tau) * target_param.data)\<close>.
  \<open>zip\<close> stops at the shorter list; target parameters beyond it stay as they are.
\<close>

definition soft_update :: "real \<Rightarrow> params \<Rightarrow> params \<Rightarrow> params" where
  "soft_update tau source target =
     map2 (\<lambda>param target_param. tadd (tmul tau param) (tmul (1 - tau) target_param))
       source target
     @ drop (length source) target"

subsection \<open>Files\<close>

text \<open>
  The part of the file system the agents touch: the directories that exist, and the
  state dictionaries stored in regular files, both under the path names the code uses.
\<close>

record filesystem =
  fs_dirs :: "string set"
  fs_files :: "string \<Rightarrow> params option"

text \<open>
  The proper ancestors of a path: its non-empty prefixes that end before a \<open>/\<close>.
\<close>

definition ancestors :: "string \<Rightarrow> string list" where
  "ancestors p =
     filter (\<lambda>q. q \<noteq> [])
       (map (\<lambda>i. take i p) (filter (\<lambda>i. p ! i = CHR ''/'') [0..<length p]))"

text \<open>The part of a path before its last \<open>/\<close> (empty when it has none).\<close>

definition parent_dir :: "string \<Rightarrow> string" where
  "parent_dir p = rev (drop 1 (dropWhile (\<lambda>c. c \<noteq> CHR ''/'') (rev p)))"

text \<open>
  A file system is well formed when every ancestor of a directory or file is a
  directory.
\<close>

definition fs_ok :: "filesystem \<Rightarrow> bool" where
  "fs_ok fs =
     (\<forall>p. p \<in> fs_dirs fs \<or> fs_files fs p \<noteq> None \<longrightarrow> (\<forall>a\<in>set (ancestors p). a \<in> fs_dirs fs))"

text \<open>\<open>os.path.exists\<close>; the empty path does not exist.\<close>

definition os_path_exists :: "filesystem \<Rightarrow> string \<Rightarrow> bool" where
  "os_path_exists fs p = (p \<noteq> [] \<and> (p \<in> fs_dirs fs \<or> fs_files fs p \<noteq> None))"

text \<open>
  \<open>os.makedirs(p)\<close> creates \<open>p\<close> and its missing ancestors. It raises on the empty
  path, on a path below a regular file and on a path that exists.
\<close>

definition os_makedirs :: "filesystem \<Rightarrow> string \<Rightarrow> filesystem \<times> error option" where
  "os_makedirs fs p =
     (if p = [] then (fs, Some FileNotFoundError)
      else if \<exists>a\<in>set (ancestors p). fs_files fs a \<noteq> None then (fs, Some NotADirectoryError)
      else if os_path_exists fs p then (fs, Some FileExistsError)
      else (fs\<lparr>fs_dirs := fs_dirs fs \<union> set (ancestors p) \<union> {p}\<rparr>, None))"

text \<open>The f-string \<open>f"{filepath}/{filename}_role.ext"\<close>.\<close>

definition model_path :: "string \<Rightarrow> string \<Rightarrow> string \<Rightarrow> string" where
  "model_path filepath filename suffix = filepath @ ''/'' @ filename @ suffix"

text \<open>
  \<open>torch.save(obj, path)\<close> raises a RuntimeError unless the part of \<open>path\<close> before its
  last \<open>/\<close> is an existing directory (or empty) and \<open>path\<close> itself is not a directory.
\<close>

definition torch_save :: "filesystem \<Rightarrow> params \<Rightarrow> string \<Rightarrow> filesystem \<times> error option" where
  "torch_save fs obj path =
     (if (parent_dir path = [] \<or> parent_dir path \<in> fs_dirs fs) \<and> path \<notin> fs_dirs fs
      then (fs\<lparr>fs_files := (fs_files fs)(path \<mapsto> obj)\<rparr>, None)
      else (fs, Some RuntimeError))"

text \<open>
  The error of \<open>open(path, "rb")\<close> when \<open>path\<close> is no regular file: the path is a
  directory, or it lies below a regular file, or there is no such entry.
\<close>

definition open_error :: "filesystem \<Rightarrow> string \<Rightarrow> error" where
  "open_error fs path =
     (if path \<in> fs_dirs fs then IsADirectoryError
      else if \<exists>a\<in>set (ancestors path). fs_files fs a \<noteq> None then NotADirectoryError
      else FileNotFoundError)"

text \<open>\<open>torch.load(path, ...)\<close> opens the file for reading, and raises when it cannot.\<close>

definition torch_load :: "filesystem \<Rightarrow> string \<Rightarrow> error + params" where
  "torch_load fs path =
     (case fs_files fs path of None \<Rightarrow> Inl (open_error fs path) | Some obj \<Rightarrow> Inr obj)"

text \<open>
  \<open>load_state_dict\<close> (strict) copies every stored tensor whose shape is the shape of the
  parameter in its place, and then raises a RuntimeError if a shape differed or an entry
  was missing or unexpected.
\<close>

fun copy_matching :: "params \<Rightarrow> params \<Rightarrow> params" where
  "copy_matching [] loaded = []"
| "copy_matching (c # cs) [] = c # cs"
| "copy_matching (c # cs) (l # ls) =
     (if length l = length c then l else c) # copy_matching cs ls"

definition load_state_dict :: "params \<Rightarrow> params \<Rightarrow> params \<times> error option" where
  "load_state_dict current loaded =
     (copy_matching current loaded,
      if map length loaded = map length current then None else Some RuntimeError)"

text \<open>Lines 121-123 of DQN.py, 160-162 of DDPG.py, 206-208 of SAC.py.\<close>

definition ensure_dir :: "filesystem \<Rightarrow> string \<Rightarrow> filesystem \<times> error option" where
  "ensure_dir fs filepath =
     (if \<not> os_path_exists fs filepath then os_makedirs fs filepath else (fs, None))"

subsection \<open>DQN/DQN.py\<close>

record 'o DQN =
  dqn_gamma :: real
  dqn_lr :: real
  dqn_net :: params
  dqn_target_net :: params
  dqn_learn_counter :: int
  dqn_target_update_freq :: int
  dqn_optimiser :: 'o
  dqn_net_training :: bool

text \<open>
  \<open>__init__\<close>: \<open>net0\<close> is the freshly initialised \<open>Network\<close>, \<open>opt0\<close> the fresh Adam
  state; the target network is a deep copy.
\<close>

definition DQN_init :: "params \<Rightarrow> 'o \<Rightarrow> real \<Rightarrow> real \<Rightarrow> int \<Rightarrow> 'o DQN" where
  "DQN_init net0 opt0 gamma lr target_update_freq =
     \<lparr>dqn_gamma = gamma, dqn_lr = lr, dqn_net = net0, dqn_target_net = net0,
      dqn_learn_counter = 0, dqn_target_update_freq = target_update_freq,
      dqn_optimiser = opt0, dqn_net_training = True\<rparr>"

text \<open>\<open>np.argmax\<close>: the first position of the maximum.\<close>

definition argmax :: "real list \<Rightarrow> nat" where
  "argmax q = length (takeWhile (\<lambda>v. v \<noteq> Max (set q)) q)"

text \<open>
  \<open>select_action_from_policy\<close> (lines 48-67). \<open>forward p st\<close> is the output of the
  network with parameters \<open>p\<close> on the state \<open>st\<close>: one value per action. The method
  leaves the network in training mode.
\<close>

definition DQN_select_action_from_policy :: "(params \<Rightarrow> tensor \<Rightarrow> real list) \<Rightarrow> 'o DQN \<Rightarrow> tensor \<Rightarrow> nat \<times> 'o DQN" where
  "DQN_select_action_from_policy forward s state =
     (argmax (forward (dqn_net s) state), s\<lparr>dqn_net_training := True\<rparr>)"

text \<open>Lines 94-100: the bootstrap targets, computed with the target network.\<close>

definition dqn_target_q_values :: "(params \<Rightarrow> tensor \<Rightarrow> real list) \<Rightarrow> 'o DQN \<Rightarrow> nat batch \<Rightarrow> tensor" where
  "dqn_target_q_values forward s b =
     tadd (rewards b)
       (tprod (tmul (dqn_gamma s) (one_minus (dones b)))
          (map (\<lambda>st. Max (set (forward (dqn_target_net s) st))) (next_states b)))"

text \<open>Lines 91-92 and 102-104: the loss as a function of the online parameters.\<close>

definition dqn_loss :: "(params \<Rightarrow> tensor \<Rightarrow> real list) \<Rightarrow> 'o DQN \<Rightarrow> nat batch \<Rightarrow> params \<Rightarrow> real" where
  "dqn_loss forward s b p =
     mse_loss (map2 (\<lambda>st a. forward p st ! a) (states b) (actions b))
       (dqn_target_q_values forward s b)"

text \<open>
  \<open>train_policy\<close> (lines 69-112). The reshapes of lines 86-88 raise when a column has
  not \<open>batch_size\<close> entries, before anything is written. The remainder of line 111 raises
  on a zero \<open>target_update_freq\<close>, after the optimiser step and the increment.
\<close>

definition DQN_train_policy :: "(params \<Rightarrow> tensor \<Rightarrow> real list) \<Rightarrow> 'o optimiser_step \<Rightarrow> ('m, nat) sampler \<Rightarrow> 'o DQN \<Rightarrow> 'm \<Rightarrow> int \<Rightarrow> 'o DQN \<times> error option" where
  "DQN_train_policy forward adam sample_experience s mem batch_sz =
     (case sample_experience mem batch_sz of
        Inl e \<Rightarrow> (s, Some e)
      | Inr experiences \<Rightarrow>
          if \<not> (has_rows (actions experiences) batch_sz \<and>
                 has_rows (rewards experiences) batch_sz \<and>
                 has_rows (dones experiences) batch_sz)
          then (s, Some RuntimeError)
          else
            (case adam (dqn_optimiser s) (dqn_loss forward s experiences) (dqn_net s) of
               Inl e \<Rightarrow> (s, Some e)
             | Inr (net', opt') \<Rightarrow>
                 (let s1 = s\<lparr>dqn_net := net', dqn_optimiser := opt',
                              dqn_learn_counter := dqn_learn_counter s + 1\<rparr>
                  in case py_mod_is_zero (dqn_learn_counter s1) (dqn_target_update_freq s1) of
                       Inl e \<Rightarrow> (s1, Some e)
                     | Inr True \<Rightarrow> (s1\<lparr>dqn_target_net := dqn_net s1\<rparr>, None)
                     | Inr False \<Rightarrow> (s1, None))))"

text \<open>The loop's \<open>for _ in range(G): rl_agent.train_policy(memory, batch_size)\<close> on a DQN agent.\<close>

fun DQN_train_repeat :: "(params \<Rightarrow> tensor \<Rightarrow> real list) \<Rightarrow> 'o optimiser_step \<Rightarrow> ('m, nat) sampler \<Rightarrow> nat \<Rightarrow> 'o DQN \<Rightarrow> 'm \<Rightarrow> int \<Rightarrow> 'o DQN \<times> error option" where
  "DQN_train_repeat forward adam sample_experience 0 s mem batch_sz = (s, None)"
| "DQN_train_repeat forward adam sample_experience (Suc n) s mem batch_sz =
     (case DQN_train_policy forward adam sample_experience s mem batch_sz of
        (s', Some e) \<Rightarrow> (s', Some e)
      | (s', None) \<Rightarrow> DQN_train_repeat forward adam sample_experience n s' mem batch_sz)"


definition DQN_load_models :: "'o DQN \<Rightarrow> filesystem \<Rightarrow> string \<Rightarrow> string \<Rightarrow> 'o DQN \<times> error option" where
  "DQN_load_models s fs filename filepath =
     (case torch_load fs (model_path filepath filename ''_net.pth'') of
        Inl e \<Rightarrow> (s, Some e)
      | Inr loaded \<Rightarrow>
          (case load_state_dict (dqn_net s) loaded of
             (p, Some e) \<Rightarrow> (s\<lparr>dqn_net := p\<rparr>, Some e)
           | (p, None) \<Rightarrow> (s\<lparr>dqn_net := p, dqn_net_training := False\<rparr>, None)))"

subsection \<open>DDPG/DDPG.py\<close>

record 'o DDPG =
  ddpg_actor_net :: params
  ddpg_critic_net :: params
  ddpg_target_actor_net :: params
  ddpg_target_critic_net :: params
  ddpg_gamma :: real
  ddpg_tau :: real
  ddpg_actor_lr :: real
  ddpg_critic_lr :: real
  ddpg_actor_net_optimiser :: 'o
  ddpg_critic_net_optimiser :: 'o

definition DDPG_init :: "params \<Rightarrow> params \<Rightarrow> 'o \<Rightarrow> 'o \<Rightarrow> real \<Rightarrow> real \<Rightarrow> real \<Rightarrow> real \<Rightarrow> 'o DDPG" where
  "DDPG_init actor0 critic0 actor_opt0 critic_opt0 gamma tau actor_lr critic_lr =
     \<lparr>ddpg_actor_net = actor0, ddpg_critic_net = critic0, ddpg_target_actor_net = actor0,
      ddpg_target_critic_net = critic0, ddpg_gamma = gamma, ddpg_tau = tau,
      ddpg_actor_lr = actor_lr, ddpg_critic_lr = critic_lr,
      ddpg_actor_net_optimiser = actor_opt0, ddpg_critic_net_optimiser = critic_opt0\<rparr>"

text \<open>
  The two architectures, on a batch: the actor maps states to actions, the critic maps
  states and actions to one value per sample.
\<close>

record ddpg_modules =
  ddpg_actor :: "params \<Rightarrow> tensor list \<Rightarrow> tensor list"
  ddpg_critic :: "params \<Rightarrow> tensor list \<Rightarrow> tensor list \<Rightarrow> tensor"

text \<open>\<open>_update_critic\<close> (lines 75-98).\<close>

definition ddpg_q_target :: "ddpg_modules \<Rightarrow> 'o DDPG \<Rightarrow> tensor batch \<Rightarrow> tensor" where
  "ddpg_q_target m s b =
     (let next_actions = ddpg_actor m (ddpg_target_actor_net s) (next_states b);
          target_q_values = ddpg_critic m (ddpg_target_critic_net s) (next_states b) next_actions
      in tadd (rewards b) (tprod (tmul (ddpg_gamma s) (one_minus (dones b))) target_q_values))"

definition DDPG_update_critic :: "ddpg_modules \<Rightarrow> 'o optimiser_step \<Rightarrow> 'o DDPG \<Rightarrow> tensor batch \<Rightarrow> 'o DDPG \<times> error option" where
  "DDPG_update_critic m adam s b =
     (let q_target = ddpg_q_target m s b
      in case adam (ddpg_critic_net_optimiser s)
                (\<lambda>p. mse_loss (ddpg_critic m p (states b) (actions b)) q_target)
                (ddpg_critic_net s) of
           Inl e \<Rightarrow> (s, Some e)
         | Inr (critic', opt') \<Rightarrow>
             (s\<lparr>ddpg_critic_net := critic', ddpg_critic_net_optimiser := opt'\<rparr>, None))"

text \<open>\<open>_update_actor\<close> (lines 100-109).\<close>

definition DDPG_update_actor :: "ddpg_modules \<Rightarrow> 'o optimiser_step \<Rightarrow> 'o DDPG \<Rightarrow> tensor batch \<Rightarrow> 'o DDPG \<times> error option" where
  "DDPG_update_actor m adam s b =
     (case adam (ddpg_actor_net_optimiser s)
             (\<lambda>p. - mean (ddpg_critic m (ddpg_critic_net s) (states b)
                             (ddpg_actor m p (states b))))
             (ddpg_actor_net s) of
        Inl e \<Rightarrow> (s, Some e)
      | Inr (actor', opt') \<Rightarrow>
          (s\<lparr>ddpg_actor_net := actor', ddpg_actor_net_optimiser := opt'\<rparr>, None))"

text \<open>
  \<open>train_policy\<close> (lines 111-151). The reshapes of lines 129-130 raise when a column
  has not \<open>batch_size\<close> entries, before anything is written.
\<close>

definition DDPG_train_policy :: "ddpg_modules \<Rightarrow> 'o optimiser_step \<Rightarrow> ('m, tensor) sampler \<Rightarrow> 'o DDPG \<Rightarrow> 'm \<Rightarrow> int \<Rightarrow> 'o DDPG \<times> error option" where
  "DDPG_train_policy m adam sample_experience s mem batch_sz =
     (case sample_experience mem batch_sz of
        Inl e \<Rightarrow> (s, Some e)
      | Inr experiences \<Rightarrow>
          if \<not> (has_rows (rewards experiences) batch_sz \<and> has_rows (dones experiences) batch_sz)
          then (s, Some RuntimeError)
          else
            (case DDPG_update_critic m adam s experiences of
               (s1, Some e) \<Rightarrow> (s1, Some e)
             | (s1, None) \<Rightarrow>
                 (case DDPG_update_actor m adam s1 experiences of
                    (s2, Some e) \<Rightarrow> (s2, Some e)
                  | (s2, None) \<Rightarrow>
                      (let s3 = s2\<lparr>ddpg_target_critic_net :=
                                     soft_update (ddpg_tau s2) (ddpg_critic_net s2)
                                       (ddpg_target_critic_net s2)\<rparr>
                       in (s3\<lparr>ddpg_target_actor_net :=
                                 soft_update (ddpg_tau s3) (ddpg_actor_net s3)
                                   (ddpg_target_actor_net s3)\<rparr>, None)))))"



subsection \<open>SAC/SAC.py\<close>

record 'o SAC =
  sac_actor_net :: params
  sac_critic_net :: params
  sac_target_critic_net :: params
  sac_gamma :: real
  sac_tau :: real
  sac_actor_lr :: real
  sac_critic_lr :: real
  sac_alpha_lr :: real
  sac_reward_scale :: real
  sac_learn_counter :: int
  sac_policy_update_freq :: int
  sac_target_entropy :: int
  sac_log_alpha :: real
  sac_log_alpha_optimizer :: 'o
  sac_actor_net_optimiser :: 'o
  sac_critic_net_optimiser :: 'o

text \<open>\<open>__init__\<close> (lines 19-66); \<open>np.log(init_temperature)\<close> with \<open>init_temperature = 1.0\<close>.\<close>

definition SAC_init :: "params \<Rightarrow> params \<Rightarrow> 'o \<Rightarrow> 'o \<Rightarrow> 'o \<Rightarrow> int \<Rightarrow> real \<Rightarrow> real \<Rightarrow> real \<Rightarrow> real \<Rightarrow> real \<Rightarrow> 'o SAC" where
  "SAC_init actor0 critic0 alpha_opt0 actor_opt0 critic_opt0 action_num gamma tau actor_lr critic_lr alpha_lr =
     \<lparr>sac_actor_net = actor0, sac_critic_net = critic0, sac_target_critic_net = critic0,
      sac_gamma = gamma, sac_tau = tau, sac_actor_lr = actor_lr, sac_critic_lr = critic_lr,
      sac_alpha_lr = alpha_lr, sac_reward_scale = 1, sac_learn_counter = 0,
      sac_policy_update_freq = 1, sac_target_entropy = - action_num, sac_log_alpha = ln 1,
      sac_log_alpha_optimizer = alpha_opt0, sac_actor_net_optimiser = actor_opt0,
      sac_critic_net_optimiser = critic_opt0\<rparr>"

text \<open>The property \<open>alpha\<close> (lines 96-99).\<close>

definition alpha :: "'o SAC \<Rightarrow> real" where
  "alpha s = exp (sac_log_alpha s)"

text \<open>
  The architectures, on a batch. The actor is stochastic: given the noise of one forward
  pass it returns the sampled actions, their log-probabilities and the mean actions. The
  critic returns the values of its two heads. The temperature has an optimiser of its
  own, over the single scalar \<open>log_alpha\<close>.
\<close>

record 'o sac_modules =
  sac_actor :: "params \<Rightarrow> tensor list \<Rightarrow> tensor \<Rightarrow> tensor list \<times> tensor \<times> tensor list"
  sac_critic :: "params \<Rightarrow> tensor list \<Rightarrow> tensor list \<Rightarrow> tensor \<times> tensor"
  sac_adam :: "'o optimiser_step"
  sac_adam_scalar :: "'o \<Rightarrow> (real \<Rightarrow> real) \<Rightarrow> real \<Rightarrow> error + real \<times> 'o"

text \<open>\<open>_update_critic\<close>, lines 109-122: the bootstrap target.\<close>

definition sac_q_target :: "'o sac_modules \<Rightarrow> 'o SAC \<Rightarrow> tensor batch \<Rightarrow> tensor \<Rightarrow> tensor" where
  "sac_q_target m s b noise =
     (let (next_actions, next_log_pi, mu) = sac_actor m (sac_actor_net s) (next_states b) noise;
          (target_q_values_one, target_q_values_two) =
             sac_critic m (sac_target_critic_net s) (next_states b) next_actions;
          target_q_values =
             tsub (tminimum target_q_values_one target_q_values_two) (tmul (alpha s) next_log_pi)
      in tadd (tmul (sac_reward_scale s) (rewards b))
              (tprod (tmul (sac_gamma s) (one_minus (dones b))) target_q_values))"

text \<open>Lines 124-128: the total critic loss, as a function of the critic's parameters.\<close>

definition sac_critic_loss_total :: "'o sac_modules \<Rightarrow> tensor batch \<Rightarrow> tensor \<Rightarrow> params \<Rightarrow> real" where
  "sac_critic_loss_total m b q_target p =
     (let (q_values_one, q_values_two) = sac_critic m p (states b) (actions b);
          critic_loss_one = mse_loss q_values_one q_target;
          critic_loss_two = mse_loss q_values_two q_target
      in critic_loss_one + critic_loss_two)"

text \<open>\<open>_update_critic\<close> (lines 101-138).\<close>

definition SAC_update_critic :: "'o sac_modules \<Rightarrow> 'o SAC \<Rightarrow> tensor batch \<Rightarrow> tensor \<Rightarrow> 'o SAC \<times> error option" where
  "SAC_update_critic m s b noise =
     (let q_target = sac_q_target m s b noise
      in case sac_adam m (sac_critic_net_optimiser s) (sac_critic_loss_total m b q_target)
                (sac_critic_net s) of
           Inl e \<Rightarrow> (s, Some e)
         | Inr (critic', opt') \<Rightarrow>
             (s\<lparr>sac_critic_net := critic', sac_critic_net_optimiser := opt'\<rparr>, None))"

text \<open>\<open>_update_actor_alpha\<close> (lines 140-160).\<close>

definition SAC_update_actor_alpha :: "'o sac_modules \<Rightarrow> 'o SAC \<Rightarrow> tensor batch \<Rightarrow> tensor \<Rightarrow> 'o SAC \<times> error option" where
  "SAC_update_actor_alpha m s b noise =
     (let (pi0, log_pi, mu) = sac_actor m (sac_actor_net s) (states b) noise
      in case sac_adam m (sac_actor_net_optimiser s)
                (\<lambda>p. let (pi_p, log_pi_p, mu_p) = sac_actor m p (states b) noise;
                          (qf1_pi, qf2_pi) = sac_critic m (sac_critic_net s) (states b) pi_p
                      in mean (tsub (tmul (alpha s) log_pi_p) (tminimum qf1_pi qf2_pi)))
                (sac_actor_net s) of
           Inl e \<Rightarrow> (s, Some e)
         | Inr (actor', actor_opt') \<Rightarrow>
             (let s1 = s\<lparr>sac_actor_net := actor', sac_actor_net_optimiser := actor_opt'\<rparr>
              in case sac_adam_scalar m (sac_log_alpha_optimizer s1)
                        (\<lambda>la. - mean (map (\<lambda>lp. la * (lp + real_of_int (sac_target_entropy s1)))
                                        log_pi))
                        (sac_log_alpha s1) of
                   Inl e \<Rightarrow> (s1, Some e)
                 | Inr (log_alpha', alpha_opt') \<Rightarrow>
                     (s1\<lparr>sac_log_alpha := log_alpha', sac_log_alpha_optimizer := alpha_opt'\<rparr>,
                      None)))"

text \<open>
  \<open>train_policy\<close> (lines 162-197); \<open>noise_c\<close> and \<open>noise_a\<close> are the noise of the actor's
  forward passes in the critic update and in the actor update. The counter is
  incremented first; the reshapes of lines 181-182 raise when a column has not
  \<open>batch_size\<close> entries, before any network is written.
\<close>

definition SAC_train_policy :: "'o sac_modules \<Rightarrow> ('m, tensor) sampler \<Rightarrow> 'o SAC \<Rightarrow> 'm \<Rightarrow> int \<Rightarrow> tensor \<Rightarrow> tensor \<Rightarrow> 'o SAC \<times> error option" where
  "SAC_train_policy m sample_experience s mem batch_sz noise_c noise_a =
     (let s0 = s\<lparr>sac_learn_counter := sac_learn_counter s + 1\<rparr>
      in case sample_experience mem batch_sz of
           Inl e \<Rightarrow> (s0, Some e)
         | Inr experiences \<Rightarrow>
             if \<not> (has_rows (rewards experiences) batch_sz \<and> has_rows (dones experiences) batch_sz)
             then (s0, Some RuntimeError)
             else
               (case SAC_update_critic m s0 experiences noise_c of
                  (s1, Some e) \<Rightarrow> (s1, Some e)
                | (s1, None) \<Rightarrow>
                    (case SAC_update_actor_alpha m s1 experiences noise_a of
                       (s2, Some e) \<Rightarrow> (s2, Some e)
                     | (s2, None) \<Rightarrow>
                         (case py_mod_is_zero (sac_learn_counter s2) (sac_policy_update_freq s2) of
                            Inl e \<Rightarrow> (s2, Some e)
                          | Inr True \<Rightarrow>
                              (s2\<lparr>sac_target_critic_net :=
                                    soft_update (sac_tau s2) (sac_critic_net s2)
                                      (sac_target_critic_net s2)\<rparr>, None)
                          | Inr False \<Rightarrow> (s2, None)))))"

text \<open>\<open>save_models\<close> (lines 199-215) and \<open>load_models\<close> (lines 217-238).\<close>

definition SAC_save_models :: "'o SAC \<Rightarrow> filesystem \<Rightarrow> string \<Rightarrow> string \<Rightarrow> filesystem \<times> error option" where
  "SAC_save_models s fs filename filepath =
     (case ensure_dir fs filepath of
        (fs0, Some e) \<Rightarrow> (fs0, Some e)
      | (fs0, None) \<Rightarrow>
          (case torch_save fs0 (sac_actor_net s) (model_path filepath filename ''_actor.pht'') of
             (fs1, Some e) \<Rightarrow> (fs1, Some e)
           | (fs1, None) \<Rightarrow>
               torch_save fs1 (sac_critic_net s) (model_path filepath filename ''_critic.pht'')))"

definition SAC_load_models :: "'o SAC \<Rightarrow> filesystem \<Rightarrow> string \<Rightarrow> string \<Rightarrow> 'o SAC \<times> error option" where
  "SAC_load_models s fs filename filepath =
     (case torch_load fs (model_path filepath filename ''_actor.pht'') of
        Inl e \<Rightarrow> (s, Some e)
      | Inr loaded_actor \<Rightarrow>
          (case load_state_dict (sac_actor_net s) loaded_actor of
             (actor', Some e) \<Rightarrow> (s\<lparr>sac_actor_net := actor'\<rparr>, Some e)
           | (actor', None) \<Rightarrow>
               (let s1 = s\<lparr>sac_actor_net := actor'\<rparr>
                in case torch_load fs (model_path filepath filename ''_critic.pht'') of
                     Inl e \<Rightarrow> (s1, Some e)
                   | Inr loaded_critic \<Rightarrow>
                       (case load_state_dict (sac_critic_net s1) loaded_critic of
                          (critic', r) \<Rightarrow> (s1\<lparr>sac_critic_net := critic'\<rparr>, r)))))"

text \<open>
  The bootstrap target of one sample in the words of the specification:
  reward times reward scale, plus gamma times (1 - done) times the smaller target value
  minus alpha times the log-probability.
\<close>

definition spec_sac_target :: "real \<Rightarrow> real \<Rightarrow> real \<Rightarrow> real \<Rightarrow> real \<Rightarrow> real \<Rightarrow> real \<Rightarrow> real \<Rightarrow> real" where
  "spec_sac_target reward reward_scale gamma done q1_target q2_target alpha_value log_pi =
     reward * reward_scale + gamma * (1 - done) * (min q1_target q2_target - alpha_value * log_pi)"

subsection \<open>Concrete inputs\<close>

text \<open>
  The stub environment and the configuration of the end-to-end scenario (ten steps,
  three exploration steps, evaluation every five steps, batch size two, episodes ending
  at steps 4 and 9), and a small DQN configuration.
\<close>

definition stub_world :: "nat world" where
  "stub_world =
     \<lparr>reward_at = (\<lambda>t. 1), done_at = (\<lambda>t. t = 3 \<or> t = 8), truncated_at = (\<lambda>t. False),
      random_at = (\<lambda>t. 1 / 2), evaluation_log_at = (\<lambda>t. [(4, 7), (4, 8), (9, 9)])\<rparr>"

definition end_to_end_config :: config where
  "end_to_end_config =
     \<lparr>algorithm_name = ''DDPG'', steps_training = 10, evaluation_interval = 5,
      log_interval = 1000, number_eval_episodes = 10, max_steps_per_batch = 0,
      epsilon_min = 0, epsilon_decay = 0, G = 1, batch_size = 2, steps_exploration = 3\<rparr>"

definition dqn_config :: config where
  "dqn_config =
     \<lparr>algorithm_name = ''DQN'', steps_training = 4, evaluation_interval = 2,
      log_interval = 1000, number_eval_episodes = 1, max_steps_per_batch = 0,
      epsilon_min = 1 / 10, epsilon_decay = 1 / 2, G = 1, batch_size = 1, steps_exploration = 1\<rparr>"

text \<open>
  Stand-ins for the collaborators of the agents: an optimiser step that moves every
  parameter by one, constant networks, a sampler that returns a fixed batch of two
  transitions, an empty file system, a file system holding the one regular file \<open>a\<close>, and agents built by the constructors.
\<close>

definition stub_adam :: "unit optimiser_step" where
  "stub_adam opt loss p = Inr (map (map (\<lambda>v. v + 1)) p, opt)"

definition stub_forward :: "params \<Rightarrow> tensor \<Rightarrow> real list" where
  "stub_forward p st = [0, 1]"

definition stub_sample_dqn :: "(unit, nat) sampler" where
  "stub_sample_dqn mem n =
     Inr \<lparr>states = [[0], [0]], actions = [0, 1], rewards = [1, 2], next_states = [[0], [0]],
          dones = [0, 1]\<rparr>"

definition stub_batch :: "tensor batch" where
  "stub_batch =
     \<lparr>states = [[0], [0]], actions = [[0], [0]], rewards = [1, 2], next_states = [[0], [0]],
      dones = [0, 1]\<rparr>"

definition stub_sample :: "(unit, tensor) sampler" where
  "stub_sample mem n = Inr stub_batch"

definition stub_ddpg :: ddpg_modules where
  "stub_ddpg =
     \<lparr>ddpg_actor = (\<lambda>p sts. map (\<lambda>st. [0]) sts),
      ddpg_critic = (\<lambda>p sts acts. map (\<lambda>st. 1) sts)\<rparr>"

definition stub_sac :: "unit sac_modules" where
  "stub_sac =
     \<lparr>sac_actor = (\<lambda>p sts noise. (map (\<lambda>st. [0]) sts, noise, map (\<lambda>st. [0]) sts)),
      sac_critic = (\<lambda>p sts acts. (map (\<lambda>st. 3) sts, map (\<lambda>st. 2) sts)),
      sac_adam = stub_adam,
      sac_adam_scalar = (\<lambda>opt loss x. Inr (x, opt))\<rparr>"

definition empty_fs :: filesystem where
  "empty_fs = \<lparr>fs_dirs = {}, fs_files = (\<lambda>p. None)\<rparr>"


definition dqn_agent :: "unit DQN" where
  "dqn_agent = (DQN_init [[0]] () (99 / 100) (1 / 1000) 2)\<lparr>dqn_net := [[1]], dqn_learn_counter := 1\<rparr>"

definition ddpg_agent :: "unit DDPG" where
  "ddpg_agent = DDPG_init [[0]] [[1]] () () (99 / 100) (1 / 2) (1 / 1000) (1 / 1000)"

definition sac_agent :: "unit SAC" where
  "sac_agent = SAC_init [[0]] [[1]] () () () 1 (99 / 100) (1 / 2) (1 / 1000) (1 / 1000) (1 / 1000)"

definition sac_trained :: "unit SAC" where
  "sac_trained =
     sac_agent\<lparr>sac_actor_net := [[5]], sac_critic_net := [[6]], sac_target_critic_net := [[7]],
               sac_log_alpha := 1 / 2\<rparr>"

section \<open>Properties of the training loop\<close>

subsection \<open>Effect of each phase\<close>

lemma emit_simps [simp]:
  "trace (emit e s) = trace s @ [e]"
  "memory (emit e s) = memory s"
  "exploration_rate (emit e s) = exploration_rate s"
  "training_completed (emit e s) = training_completed s"
  by (simp_all add: emit_def)

lemma steps_done_simps [simp]:
  "steps_done [] = 0"
  "steps_done (xs @ ys) = steps_done xs + steps_done ys"
  "steps_done (e # xs) = (if is_update_step e then 1 else 0) + steps_done xs"
  by (simp_all add: steps_done_def)

lemma decay_rates_simps [simp]:
  "decay_rates [] = []"
  "decay_rates (xs @ ys) = decay_rates xs @ decay_rates ys"
  "decay_rates (e # xs) = decay_rate_of e @ decay_rates xs"
  by (simp_all add: decay_rates_def)

lemma train_repeat_trace:
  "trace (train_repeat n t b s) = trace s @ replicate n (TrainPolicy t b (length (memory s)))"
  by (induction n arbitrary: s) (simp_all add: replicate_app_Cons_same)

lemma train_repeat_fields [simp]:
  "memory (train_repeat n t b s) = memory s"
  "exploration_rate (train_repeat n t b s) = exploration_rate s"
  "training_completed (train_repeat n t b s) = training_completed s"
  by (induction n arbitrary: s) simp_all

lemma select_action_effect:
  assumes "select_action cfg w t s = (a, s1)"
  shows "\<exists>evs. trace s1 = trace s @ evs \<and> (\<forall>e\<in>set evs. iteration_event cfg w t s e)
           \<and> steps_done evs = 0"
    and "memory s1 = memory s" and "training_completed s1 = training_completed s"
  using assms by (auto simp: select_action_def Let_def split: if_splits bool.splits sum.splits)

lemma store_experience_events:
  "\<exists>evs. trace (store_experience w t a s) = trace s @ evs \<and>
         (\<forall>e\<in>set evs. iteration_event cfg w' t s0 e) \<and> steps_done evs = 0 \<and> decay_rates evs = []"
  by (auto simp: store_experience_def Let_def)

lemma store_experience_fields:
  "length (memory (store_experience w t a s)) = Suc (length (memory s))"
  "training_completed (store_experience w t a s) = training_completed s"
  "exploration_rate (store_experience w t a s) = exploration_rate s"
  by (auto simp: store_experience_def Let_def)

lemma train_phase_effect:
  assumes "train_phase cfg t s = (s', r)" "length (memory s) = Suc (length (memory s0))"
  shows "\<exists>evs. trace s' = trace s @ evs \<and> (\<forall>e\<in>set evs. iteration_event cfg w t s0 e)
           \<and> steps_done evs = 0 \<and> decay_rates evs = []"
    and "training_completed s' = training_completed s"
    and "exploration_rate s' = exploration_rate s"
    and "\<not> is_ppo cfg \<Longrightarrow> memory s' = memory s"
  using assms
  by (auto simp: train_phase_def py_mod_is_zero_def train_repeat_trace steps_done_def decay_rates_def split: if_splits bool.splits sum.splits)

lemma episode_phase_effect:
  assumes "episode_phase cfg w t s = (s', r)"
  shows "\<exists>evs. trace s' = trace s @ evs \<and> (\<forall>e\<in>set evs. iteration_event cfg w t s0 e)
           \<and> steps_done evs = 0 \<and> decay_rates evs = []"
    and "training_completed s' = training_completed s"
    and "exploration_rate s' = exploration_rate s"
    and "memory s' = memory s"
  using assms
  by (auto simp: episode_phase_def py_mod_is_zero_def Let_def split: if_splits bool.splits sum.splits)

lemma evaluate_phase_effect:
  assumes "evaluate_phase cfg w t s = (s', r)"
  shows "\<exists>evs. trace s' = trace s @ evs \<and> (\<forall>e\<in>set evs. iteration_event cfg w t s0 e)
           \<and> steps_done evs = 0 \<and> decay_rates evs = []
           \<and> (r = None \<longrightarrow> evaluation_interval cfg dvd t + 1 \<longrightarrow>
                EvaluatePolicyLoop EvaluationEnv (number_eval_episodes cfg) t \<in> set evs)"
    and "training_completed s' = training_completed s"
    and "exploration_rate s' = exploration_rate s"
    and "memory s' = memory s"
  using assms
  by (auto simp: evaluate_phase_def py_mod_is_zero_def Let_def mod_eq_0_iff_dvd split: if_splits bool.splits sum.splits)

lemma select_action_rate:
  assumes "select_action cfg w t s = (a, s1)"
  shows "\<exists>evs. trace s1 = trace s @ evs \<and>
           (decay_rates evs = [] \<and> exploration_rate s1 = exploration_rate s \<or>
            decay_rates evs = [decay_exploration cfg (exploration_rate s)] \<and>
            exploration_rate s1 = decay_exploration cfg (exploration_rate s))"
  using assms by (auto simp: select_action_def Let_def split: if_splits)

lemma iteration_event_cong:
  "memory s1 = memory s2 \<Longrightarrow> exploration_rate s1 = exploration_rate s2 \<Longrightarrow>
   iteration_event cfg w t s1 e = iteration_event cfg w t s2 e"
  by (cases e) simp_all

lemma steps_done_positive: "UpdateStep n \<in> set evs \<Longrightarrow> 0 < steps_done evs"
  by (induction evs) auto

lemma loop_body_effect:
  assumes "loop_body cfg w t s = (s', r)"
  shows "\<exists>evs. trace s' = trace s @ evs \<and> (\<forall>e\<in>set evs. iteration_event cfg w t s e) \<and>
           steps_done evs = (if r = None then 1 else 0) \<and>
           (r = None \<longrightarrow> evaluation_interval cfg dvd t + 1 \<longrightarrow>
              EvaluatePolicyLoop EvaluationEnv (number_eval_episodes cfg) t \<in> set evs) \<and>
           (decay_rates evs = [] \<and> exploration_rate s' = exploration_rate s \<or>
            decay_rates evs = [decay_exploration cfg (exploration_rate s)] \<and>
            exploration_rate s' = decay_exploration cfg (exploration_rate s))"
    and "training_completed s' = training_completed s"
    and "\<not> is_ppo cfg \<Longrightarrow> r = None \<Longrightarrow> length (memory s') = Suc (length (memory s))"
proof -
  define s0 where "s0 = s\<lparr>episode_timesteps := episode_timesteps s + 1\<rparr>"
  obtain a s1 where sel: "select_action cfg w t s0 = (a, s1)" by (cases "select_action cfg w t s0")
  define s2 where "s2 = store_experience w t a s1"
  obtain s3 r3 where tr: "train_phase cfg t s2 = (s3, r3)" by (cases "train_phase cfg t s2")
  obtain s4 r4 where ep: "episode_phase cfg w t s3 = (s4, r4)" by (cases "episode_phase cfg w t s3")
  obtain s5 r5 where ev: "evaluate_phase cfg w t s4 = (s5, r5)" by (cases "evaluate_phase cfg w t s4")
  have s0: "memory s0 = memory s" "exploration_rate s0 = exploration_rate s"
    "training_completed s0 = training_completed s" "trace s0 = trace s"
    by (simp_all add: s0_def)
  have ie: "iteration_event cfg w t s0 e = iteration_event cfg w t s e" for e
    by (rule iteration_event_cong) (simp_all add: s0)
  from select_action_effect[OF sel] select_action_rate[OF sel]
  obtain e1 where e1: "trace s1 = trace s @ e1" "\<forall>e\<in>set e1. iteration_event cfg w t s e"
      "steps_done e1 = 0"
      "decay_rates e1 = [] \<and> exploration_rate s1 = exploration_rate s \<or>
       decay_rates e1 = [decay_exploration cfg (exploration_rate s)] \<and>
       exploration_rate s1 = decay_exploration cfg (exploration_rate s)"
    and m1: "memory s1 = memory s" and c1: "training_completed s1 = training_completed s"
    by (auto simp: s0 ie)
  from store_experience_events[of w t a s1 cfg w s] store_experience_fields[of w t a s1]
  obtain e2 where e2: "trace s2 = trace s1 @ e2" "\<forall>e\<in>set e2. iteration_event cfg w t s e"
      "steps_done e2 = 0" "decay_rates e2 = []"
    and m2: "length (memory s2) = Suc (length (memory s))"
    and c2: "training_completed s2 = training_completed s1"
    and x2: "exploration_rate s2 = exploration_rate s1"
    by (auto simp: s2_def m1)
  from train_phase_effect(1)[OF tr m2, of w] train_phase_effect(2-4)[OF tr m2]
  obtain e3 where e3: "trace s3 = trace s2 @ e3" "\<forall>e\<in>set e3. iteration_event cfg w t s e"
      "steps_done e3 = 0" "decay_rates e3 = []"
    and m3: "\<not> is_ppo cfg \<Longrightarrow> memory s3 = memory s2"
    and c3: "training_completed s3 = training_completed s2"
    and x3: "exploration_rate s3 = exploration_rate s2"
    by auto
  from episode_phase_effect(1)[OF ep, of s] episode_phase_effect(2-4)[OF ep]
  obtain e4 where e4: "trace s4 = trace s3 @ e4" "\<forall>e\<in>set e4. iteration_event cfg w t s e"
      "steps_done e4 = 0" "decay_rates e4 = []"
    and m4: "memory s4 = memory s3"
    and c4: "training_completed s4 = training_completed s3"
    and x4: "exploration_rate s4 = exploration_rate s3"
    by auto
  from evaluate_phase_effect(1)[OF ev, of s] evaluate_phase_effect(2-4)[OF ev]
  obtain e5 where e5: "trace s5 = trace s4 @ e5" "\<forall>e\<in>set e5. iteration_event cfg w t s e"
      "steps_done e5 = 0" "decay_rates e5 = []"
      "r5 = None \<longrightarrow> evaluation_interval cfg dvd t + 1 \<longrightarrow>
                EvaluatePolicyLoop EvaluationEnv (number_eval_episodes cfg) t \<in> set e5"
    and m5: "memory s5 = memory s4"
    and c5: "training_completed s5 = training_completed s4"
    and x5: "exploration_rate s5 = exploration_rate s4"
    by auto
  have body: "(s', r) =
     (case r3 of Some e \<Rightarrow> (s3, Some e) | None \<Rightarrow>
        (case r4 of Some e \<Rightarrow> (s4, Some e) | None \<Rightarrow>
           (case r5 of Some e \<Rightarrow> (s5, Some e) | None \<Rightarrow> (report_phase t s5, None))))"
    using assms sel tr ep ev
    by (simp add: loop_body_def Let_def s0_def[symmetric] s2_def[symmetric] split: option.splits)
  consider (a) e where "r3 = Some e" "s' = s3" "r = Some e"
    | (b) e where "r3 = None" "r4 = Some e" "s' = s4" "r = Some e"
    | (c) e where "r3 = None" "r4 = None" "r5 = Some e" "s' = s5" "r = Some e"
    | (d) "r3 = None" "r4 = None" "r5 = None" "s' = report_phase t s5" "r = None"
    using body by (auto split: option.splits)
  then have main: "(\<exists>evs. trace s' = trace s @ evs \<and> (\<forall>e\<in>set evs. iteration_event cfg w t s e) \<and>
           steps_done evs = (if r = None then 1 else 0) \<and>
           (r = None \<longrightarrow> evaluation_interval cfg dvd t + 1 \<longrightarrow>
              EvaluatePolicyLoop EvaluationEnv (number_eval_episodes cfg) t \<in> set evs) \<and>
           (decay_rates evs = [] \<and> exploration_rate s' = exploration_rate s \<or>
            decay_rates evs = [decay_exploration cfg (exploration_rate s)] \<and>
            exploration_rate s' = decay_exploration cfg (exploration_rate s))) \<and>
         training_completed s' = training_completed s \<and>
         (\<not> is_ppo cfg \<longrightarrow> r = None \<longrightarrow> length (memory s') = Suc (length (memory s)))"
  proof cases
    case a
    show ?thesis
      using e1 e2 e3 c1 c2 c3 x2 x3 a
      by (intro conjI exI[of _ "e1 @ e2 @ e3"]) auto
  next
    case b
    show ?thesis
      using e1 e2 e3 e4 c1 c2 c3 c4 x2 x3 x4 b
      by (intro conjI exI[of _ "e1 @ e2 @ e3 @ e4"]) auto
  next
    case c
    show ?thesis
      using e1 e2 e3 e4 e5 c1 c2 c3 c4 c5 x2 x3 x4 x5 c
      by (intro conjI exI[of _ "e1 @ e2 @ e3 @ e4 @ e5"]) auto
  next
    case d
    show ?thesis
      using e1 e2 e3 e4 e5 c1 c2 c3 c4 c5 x2 x3 x4 x5 m2 m3 m4 m5 d
      by (intro conjI exI[of _ "e1 @ e2 @ e3 @ e4 @ e5 @ [UpdateProgress t, UpdateStep (t + 1)]"])
         (auto simp: report_phase_def)
  qed
  from main show "\<exists>evs. trace s' = trace s @ evs \<and> (\<forall>e\<in>set evs. iteration_event cfg w t s e) \<and>
           steps_done evs = (if r = None then 1 else 0) \<and>
           (r = None \<longrightarrow> evaluation_interval cfg dvd t + 1 \<longrightarrow>
              EvaluatePolicyLoop EvaluationEnv (number_eval_episodes cfg) t \<in> set evs) \<and>
           (decay_rates evs = [] \<and> exploration_rate s' = exploration_rate s \<or>
            decay_rates evs = [decay_exploration cfg (exploration_rate s)] \<and>
            exploration_rate s' = decay_exploration cfg (exploration_rate s))"
    by blast
  from main show "training_completed s' = training_completed s" by blast
  from main show "\<not> is_ppo cfg \<Longrightarrow> r = None \<Longrightarrow> length (memory s') = Suc (length (memory s))" by blast
qed

subsection \<open>Effect of a run\<close>

lemma interrupt_simps [simp]:
  "trace (interrupt s) = trace s @ [PrintInterrupted]"
  "training_completed (interrupt s) = False"
  "exploration_rate (interrupt s) = exploration_rate s"
  "memory (interrupt s) = memory s"
  by (simp_all add: interrupt_def)

lemma finalize_simps [simp]:
  "trace (finalize s) =
     trace s @ [SaveLogs, PolicyLoopTest TrainingEnv, TrainingCompletedSignal (training_completed s)]"
  "exploration_rate (finalize s) = exploration_rate s"
  "memory (finalize s) = memory s"
  by (simp_all add: finalize_def)

lemma iteration_event_not_interrupted:
  "iteration_event cfg w t s e \<Longrightarrow> e \<noteq> PrintInterrupted"
  by (cases e) simp_all

lemma iteration_event_update_step:
  "iteration_event cfg w t s (UpdateStep n) \<Longrightarrow> n = t + 1"
  by simp

lemma run_steps_effect:
  assumes "run_steps cfg w ir k t s = (s', r)"
  shows "\<exists>evs. trace s' = trace s @ evs \<and>
     (\<forall>e\<in>set evs. e = PrintInterrupted \<or>
        (\<exists>t' s''. t \<le> t' \<and> t' < t + int k \<and> iteration_event cfg w t' s'' e \<and>
           (\<not> is_ppo cfg \<longrightarrow> int (length (memory s'')) = int (length (memory s)) + (t' - t)))) \<and>
     (\<forall>t'. UpdateStep (t' + 1) \<in> set evs \<longrightarrow> evaluation_interval cfg dvd t' + 1 \<longrightarrow>
        EvaluatePolicyLoop EvaluationEnv (number_eval_episodes cfg) t' \<in> set evs) \<and>
     (r = None \<longrightarrow> steps_done evs = (if ir then k else 0) \<and>
        (PrintInterrupted \<in> set evs \<longleftrightarrow> \<not> ir \<and> 0 < k) \<and>
        training_completed s' = (training_completed s \<and> (ir \<or> k = 0)))"
  using assms
proof (induction k arbitrary: t s)
  case 0
  then show ?case by simp
next
  case (Suc k)
  show ?case
  proof (cases ir)
    case False
    with Suc.prems have "s' = interrupt s" "r = None" by simp_all
    then show ?thesis using False
      by (intro exI[of _ "[PrintInterrupted]"]) simp
  next
    case True
    obtain s1 r1 where lb: "loop_body cfg w t s = (s1, r1)" by (cases "loop_body cfg w t s")
    from loop_body_effect[OF lb]
    obtain e1 where e1: "trace s1 = trace s @ e1" "\<forall>e\<in>set e1. iteration_event cfg w t s e"
        "steps_done e1 = (if r1 = None then 1 else 0)"
        "r1 = None \<longrightarrow> evaluation_interval cfg dvd t + 1 \<longrightarrow>
           EvaluatePolicyLoop EvaluationEnv (number_eval_episodes cfg) t \<in> set e1"
      and c1: "training_completed s1 = training_completed s"
      and m1: "\<not> is_ppo cfg \<Longrightarrow> r1 = None \<Longrightarrow> length (memory s1) = Suc (length (memory s))"
      by blast
    have no_int: "PrintInterrupted \<notin> set e1"
      using e1(2) iteration_event_not_interrupted by blast
    have upd: "UpdateStep (t' + 1) \<in> set e1 \<Longrightarrow> t' = t \<and> r1 = None" for t'
    proof -
      assume a: "UpdateStep (t' + 1) \<in> set e1"
      then have "t' = t" using e1(2) by fastforce
      moreover have "r1 = None" using steps_done_positive[OF a] e1(3) by (auto split: if_splits)
      ultimately show ?thesis by simp
    qed
    have ev1: "\<forall>e\<in>set e1. e = PrintInterrupted \<or>
        (\<exists>t' s''. t \<le> t' \<and> t' < t + int (Suc k) \<and> iteration_event cfg w t' s'' e \<and>
           (\<not> is_ppo cfg \<longrightarrow> int (length (memory s'')) = int (length (memory s)) + (t' - t)))"
    proof
      fix e assume "e \<in> set e1"
      then have "iteration_event cfg w t s e" using e1(2) by blast
      then have "t \<le> t \<and> t < t + int (Suc k) \<and> iteration_event cfg w t s e \<and>
           (\<not> is_ppo cfg \<longrightarrow> int (length (memory s)) = int (length (memory s)) + (t - t))"
        by simp
      then show "e = PrintInterrupted \<or>
        (\<exists>t' s''. t \<le> t' \<and> t' < t + int (Suc k) \<and> iteration_event cfg w t' s'' e \<and>
           (\<not> is_ppo cfg \<longrightarrow> int (length (memory s'')) = int (length (memory s)) + (t' - t)))"
        by blast
    qed
    show ?thesis
    proof (cases r1)
      case (Some e)
      with Suc.prems True lb have "s' = s1" "r = Some e" by simp_all
      then show ?thesis using e1 ev1 upd Some
        by (intro exI[of _ e1]) auto
    next
      case None
      with Suc.prems True lb have rest: "run_steps cfg w ir k (t + 1) s1 = (s', r)" by simp
      from Suc.IH[OF rest]
      obtain e2 where e2: "trace s' = trace s1 @ e2"
        "\<forall>e\<in>set e2. e = PrintInterrupted \<or>
          (\<exists>t' s''. t + 1 \<le> t' \<and> t' < t + 1 + int k \<and> iteration_event cfg w t' s'' e \<and>
           (\<not> is_ppo cfg \<longrightarrow> int (length (memory s'')) = int (length (memory s1)) + (t' - (t + 1))))"
        "\<forall>t'. UpdateStep (t' + 1) \<in> set e2 \<longrightarrow> evaluation_interval cfg dvd t' + 1 \<longrightarrow>
           EvaluatePolicyLoop EvaluationEnv (number_eval_episodes cfg) t' \<in> set e2"
        "r = None \<longrightarrow> steps_done e2 = (if ir then k else 0) \<and>
           (PrintInterrupted \<in> set e2 \<longleftrightarrow> \<not> ir \<and> 0 < k) \<and>
           training_completed s' = (training_completed s1 \<and> (ir \<or> k = 0))"
        by blast
      have ev2: "\<forall>e\<in>set e2. e = PrintInterrupted \<or>
        (\<exists>t' s''. t \<le> t' \<and> t' < t + int (Suc k) \<and> iteration_event cfg w t' s'' e \<and>
           (\<not> is_ppo cfg \<longrightarrow> int (length (memory s'')) = int (length (memory s)) + (t' - t)))"
      proof
        fix e assume "e \<in> set e2"
        with e2(2) consider "e = PrintInterrupted"
          | t' s'' where "t + 1 \<le> t'" "t' < t + 1 + int k" "iteration_event cfg w t' s'' e"
             "\<not> is_ppo cfg \<longrightarrow> int (length (memory s'')) = int (length (memory s1)) + (t' - (t + 1))"
          by blast
        then show "e = PrintInterrupted \<or>
          (\<exists>t' s''. t \<le> t' \<and> t' < t + int (Suc k) \<and> iteration_event cfg w t' s'' e \<and>
           (\<not> is_ppo cfg \<longrightarrow> int (length (memory s'')) = int (length (memory s)) + (t' - t)))"
        proof cases
          case 1 then show ?thesis by simp
        next
          case 2
          have "t \<le> t' \<and> t' < t + int (Suc k) \<and> iteration_event cfg w t' s'' e \<and>
           (\<not> is_ppo cfg \<longrightarrow> int (length (memory s'')) = int (length (memory s)) + (t' - t))"
            using 2 m1 None by auto
          then show ?thesis by blast
        qed
      qed
      have evs: "\<forall>e\<in>set (e1 @ e2). e = PrintInterrupted \<or>
        (\<exists>t' s''. t \<le> t' \<and> t' < t + int (Suc k) \<and> iteration_event cfg w t' s'' e \<and>
           (\<not> is_ppo cfg \<longrightarrow> int (length (memory s'')) = int (length (memory s)) + (t' - t)))"
        using ev1 ev2 by auto
      have cad: "\<forall>t'. UpdateStep (t' + 1) \<in> set (e1 @ e2) \<longrightarrow> evaluation_interval cfg dvd t' + 1 \<longrightarrow>
        EvaluatePolicyLoop EvaluationEnv (number_eval_episodes cfg) t' \<in> set (e1 @ e2)"
        using upd e1(4) e2(3) by auto
      have fin: "r = None \<longrightarrow> steps_done (e1 @ e2) = (if ir then Suc k else 0) \<and>
        (PrintInterrupted \<in> set (e1 @ e2) \<longleftrightarrow> \<not> ir \<and> 0 < Suc k) \<and>
        training_completed s' = (training_completed s \<and> (ir \<or> Suc k = 0))"
        using e1(3) e2(4) None True no_int c1 by auto
      show ?thesis
        using e1(1) e2(1) evs cad fin by (intro exI[of _ "e1 @ e2"]) simp
    qed
  qed
qed

lemma iteration_event_not_final:
  "iteration_event cfg w t s e \<Longrightarrow> e \<noteq> SaveLogs \<and> e \<noteq> PolicyLoopTest env"
  by (cases e) simp_all

lemma run_steps_effectE:
  assumes "run_steps cfg w ir k t s = (s', r)"
  obtains evs where "trace s' = trace s @ evs"
    and "\<forall>e\<in>set evs. e = PrintInterrupted \<or>
        (\<exists>t' s''. t \<le> t' \<and> t' < t + int k \<and> iteration_event cfg w t' s'' e \<and>
           (\<not> is_ppo cfg \<longrightarrow> int (length (memory s'')) = int (length (memory s)) + (t' - t)))"
    and "\<forall>t'. UpdateStep (t' + 1) \<in> set evs \<longrightarrow> evaluation_interval cfg dvd t' + 1 \<longrightarrow>
        EvaluatePolicyLoop EvaluationEnv (number_eval_episodes cfg) t' \<in> set evs"
    and "r = None \<longrightarrow> steps_done evs = (if ir then k else 0) \<and>
        (PrintInterrupted \<in> set evs \<longleftrightarrow> \<not> ir \<and> 0 < k) \<and>
        training_completed s' = (training_completed s \<and> (ir \<or> k = 0))"
  using run_steps_effect[OF assms] by (elim exE conjE) (rule that)


subsection \<open>The exploration schedule\<close>

lemma decay_closed_form_step:
  fixes m d :: real
  assumes "0 \<le> d" "m \<le> 1"
  shows "max m (max m (d ^ n) * d) = max m (d ^ Suc n)"
proof (cases "m \<le> d ^ n")
  case True
  then show ?thesis by (simp add: max_def mult.commute)
next
  case False
  then have lt: "d ^ n < m" by simp
  have "0 \<le> d ^ n" using assms(1) by simp
  with lt have mpos: "0 < m" by simp
  have dle: "d \<le> 1"
  proof (rule ccontr)
    assume "\<not> d \<le> 1"
    then have "1 \<le> d" by simp
    then have "1 \<le> d ^ n" by (rule one_le_power)
    with lt assms(2) show False by simp
  qed
  have a: "m * d \<le> m" using mpos dle assms(1) by (simp add: mult_left_le)
  have "d ^ n * d \<le> m * d" using lt assms(1) by (simp add: mult_right_mono)
  with a have b: "d ^ Suc n \<le> m" by (simp add: mult.commute)
  from lt have "max m (d ^ n) = m" by simp
  with a b show ?thesis by (simp add: max_def mult.commute)
qed

lemma decay_rates_mem:
  "x \<in> set (decay_rates tr) \<longleftrightarrow> (\<exists>t. DecayExploration t x \<in> set tr)"
proof (induction tr)
  case Nil
  then show ?case by simp
next
  case (Cons e tr)
  then show ?case by (cases e) auto
qed

lemma run_steps_rates:
  assumes "run_steps cfg w ir k t s = (s', r)"
    and "0 \<le> epsilon_decay cfg" "epsilon_min cfg \<le> 1"
    and "\<forall>i<length (decay_rates (trace s)).
           decay_rates (trace s) ! i = max (epsilon_min cfg) (epsilon_decay cfg ^ Suc i)"
    and "exploration_rate s = max (epsilon_min cfg) (epsilon_decay cfg ^ length (decay_rates (trace s)))"
  shows "(\<forall>i<length (decay_rates (trace s')).
           decay_rates (trace s') ! i = max (epsilon_min cfg) (epsilon_decay cfg ^ Suc i)) \<and>
         exploration_rate s' = max (epsilon_min cfg) (epsilon_decay cfg ^ length (decay_rates (trace s')))"
  using assms
proof (induction k arbitrary: t s)
  case 0
  then show ?case by simp
next
  case (Suc k)
  show ?case
  proof (cases ir)
    case False
    with Suc.prems(1) have "s' = interrupt s" by simp
    then show ?thesis using Suc.prems(4,5) by simp
  next
    case True
    obtain s1 r1 where lb: "loop_body cfg w t s = (s1, r1)" by (cases "loop_body cfg w t s")
    let ?m = "epsilon_min cfg" and ?d = "epsilon_decay cfg"
    let ?n = "length (decay_rates (trace s))"
    from loop_body_effect(1)[OF lb]
    obtain e1 where e1: "trace s1 = trace s @ e1"
      and alt: "decay_rates e1 = [] \<and> exploration_rate s1 = exploration_rate s \<or>
            decay_rates e1 = [decay_exploration cfg (exploration_rate s)] \<and>
            exploration_rate s1 = decay_exploration cfg (exploration_rate s)"
      by blast
    have step: "decay_exploration cfg (exploration_rate s) = max ?m (?d ^ Suc ?n)"
      using decay_closed_form_step[OF Suc.prems(2,3), of ?n] Suc.prems(5)
      by (simp add: decay_exploration_def)
    have inv1: "(\<forall>i<length (decay_rates (trace s1)).
           decay_rates (trace s1) ! i = max ?m (?d ^ Suc i)) \<and>
         exploration_rate s1 = max ?m (?d ^ length (decay_rates (trace s1)))"
      using alt
    proof
      assume "decay_rates e1 = [] \<and> exploration_rate s1 = exploration_rate s"
      then show ?thesis using e1 Suc.prems(4,5) by simp
    next
      assume a: "decay_rates e1 = [decay_exploration cfg (exploration_rate s)] \<and>
            exploration_rate s1 = decay_exploration cfg (exploration_rate s)"
      then have dr: "decay_rates (trace s1) = decay_rates (trace s) @ [max ?m (?d ^ Suc ?n)]"
        using e1 step by simp
      have "decay_rates (trace s1) ! i = max ?m (?d ^ Suc i)" if "i < length (decay_rates (trace s1))" for i
      proof (cases "i < ?n")
        case True
        then show ?thesis using Suc.prems(4) dr by (simp add: nth_append)
      next
        case False
        with that dr have "i = ?n" by simp
        then show ?thesis using dr by (simp add: nth_append)
      qed
      moreover have "exploration_rate s1 = max ?m (?d ^ length (decay_rates (trace s1)))"
        using a step dr by simp
      ultimately show ?thesis by blast
    qed
    show ?thesis
    proof (cases r1)
      case (Some e)
      with Suc.prems(1) True lb have "s' = s1" by simp
      then show ?thesis using inv1 by simp
    next
      case None
      with Suc.prems(1) True lb have rest: "run_steps cfg w ir k (t + 1) s1 = (s', r)" by simp
      show ?thesis
        using Suc.IH[OF rest Suc.prems(2,3)] inv1 by blast
    qed
  qed
qed

lemma decay_exploration_floor: "epsilon_min cfg \<le> decay_exploration cfg x"
  by (simp add: decay_exploration_def)

subsection \<open>Grouping evaluation records\<close>





subsection \<open>The stepwise loop agrees with the loop\<close>

lemma tick_stopped: "finished f \<or> raised f \<noteq> None \<Longrightarrow> (tick cfg w ^^ n) f = f"
  by (induction n) (simp_all add: tick_def)

lemma ticks_run_steps:
  assumes "finished f = False" "raised f = None" "remaining f = k"
  shows "locals ((tick cfg w ^^ Suc k) f) =
           fst (case run_steps cfg w (is_running_local f) k (total_step_counter f) (locals f) of
                  (s, Some e) \<Rightarrow> (s, Some e) | (s, None) \<Rightarrow> (finalize s, None)) \<and>
         raised ((tick cfg w ^^ Suc k) f) =
           snd (case run_steps cfg w (is_running_local f) k (total_step_counter f) (locals f) of
                  (s, Some e) \<Rightarrow> (s, Some e) | (s, None) \<Rightarrow> (finalize s, None))"
  using assms
proof (induction k arbitrary: f)
  case 0
  then show ?case by (simp add: tick_def)
next
  case (Suc k)
  have unroll: "(tick cfg w ^^ Suc (Suc k)) f = (tick cfg w ^^ Suc k) (tick cfg w f)"
    by (simp only: funpow_Suc_right comp_def)
  show ?case
  proof (cases "is_running_local f")
    case False
    then have t1: "tick cfg w f = f\<lparr>locals := finalize (interrupt (locals f)), finished := True\<rparr>"
      using Suc.prems by (simp add: tick_def)
    have "(tick cfg w ^^ Suc k) (tick cfg w f) = tick cfg w f"
      by (rule tick_stopped) (simp add: t1)
    then have eq: "(tick cfg w ^^ Suc (Suc k)) f = tick cfg w f"
      using unroll by (simp only:)
    show ?thesis unfolding eq t1 using False Suc.prems by simp
  next
    case True
    obtain s1 r1 where lb: "loop_body cfg w (total_step_counter f) (locals f) = (s1, r1)"
      by (cases "loop_body cfg w (total_step_counter f) (locals f)")
    show ?thesis
    proof (cases r1)
      case (Some e)
      then have t1: "tick cfg w f = f\<lparr>locals := s1, raised := Some e\<rparr>"
        using Suc.prems True lb by (simp add: tick_def)
      have "(tick cfg w ^^ Suc k) (tick cfg w f) = tick cfg w f"
        by (rule tick_stopped) (simp add: t1)
      then have eq: "(tick cfg w ^^ Suc (Suc k)) f = tick cfg w f"
        using unroll by (simp only:)
      show ?thesis unfolding eq t1 using True lb Some Suc.prems by simp
    next
      case None
      then have t1: "tick cfg w f =
          f\<lparr>remaining := k, total_step_counter := total_step_counter f + 1, locals := s1\<rparr>"
        using Suc.prems True lb by (simp add: tick_def)
      have "finished (tick cfg w f) = False" "raised (tick cfg w f) = None"
        "remaining (tick cfg w f) = k"
        using Suc.prems by (simp_all add: t1)
      from Suc.IH[OF this] show ?thesis
        unfolding unroll using True lb None by (simp add: t1)
    qed
  qed
qed

lemma ticks_training_loop:
  "locals ((tick cfg w ^^ Suc (nat (steps_training cfg))) (enter cfg is_running)) =
     fst (training_loop cfg w is_running) \<and>
   raised ((tick cfg w ^^ Suc (nat (steps_training cfg))) (enter cfg is_running)) =
     snd (training_loop cfg w is_running)"
  using ticks_run_steps[of "enter cfg is_running" "nat (steps_training cfg)" cfg w]
  by (simp add: enter_def training_loop_def)

lemma exec_started:
  "worker sys = Some f \<Longrightarrow>
   worker (exec cfg w sched sys) = Some ((tick cfg w ^^ length (filter (\<lambda>a. a = Tick) sched)) f)"
proof (induction sched arbitrary: sys f)
  case Nil
  then show ?case by simp
next
  case (Cons a sched)
  show ?case
  proof (cases a)
    case StartThread
    then show ?thesis using Cons.prems Cons.IH[of "exec_item cfg w a sys" f] by simp
  next
    case Tick
    have "worker (exec_item cfg w Tick sys) = Some (tick cfg w f)" using Cons.prems by simp
    from Cons.IH[OF this] show ?thesis using Tick by (simp add: funpow_swap1)
  next
    case StopRequest
    then show ?thesis using Cons.prems Cons.IH[of "exec_item cfg w a sys" f] by simp
  qed
qed

lemma stop_request_no_effect:
  "worker (exec cfg w (StartThread # sched) system_init) =
   worker (exec cfg w (StartThread # filter (\<lambda>a. a \<noteq> StopRequest) sched) system_init)"
proof -
  have f: "filter (\<lambda>a. a = Tick) (filter (\<lambda>a. a \<noteq> StopRequest) sched) = filter (\<lambda>a. a = Tick) sched"
    by (induction sched) auto
  have w: "worker (exec_item cfg w StartThread system_init) = Some (enter cfg True)"
    by (simp add: system_init_def TrainingThread_init_def)
  show ?thesis
    unfolding exec.simps
    using exec_started[OF w, of cfg w sched]
      exec_started[OF w, of cfg w "filter (\<lambda>a. a \<noteq> StopRequest) sched"]
    by (simp only: f)
qed

section \<open>Claims about the training loop\<close>

text \<open>
  Claim C1, as the code has it. Every call \<open>train_policy(memory, batch_size)\<close> of a run
  is made by an off-policy family, in an iteration \<open>t\<close> at which the memory holds
  \<open>t + 1\<close> transitions. For the epsilon-greedy value family the gate
  \<open>total_step_counter > batch_size\<close> gives at least \<open>batch_size\<close> stored transitions for
  all values of \<open>steps_exploration\<close> and \<open>batch_size\<close>. For the generic off-policy family
  the gate is \<open>total_step_counter >= steps_exploration\<close>, and the memory holds at least
  \<open>batch_size\<close> transitions whenever \<open>batch_size \<le> steps_exploration + 1\<close>.
\<close>

theorem train_policy_memory_gate:
  assumes "TrainPolicy t b n \<in> set (trace (fst (training_loop cfg w is_running)))"
  shows "\<not> is_ppo cfg \<and> b = batch_size cfg \<and> int n = t + 1 \<and>
         (is_dqn cfg \<longrightarrow> batch_size cfg < t \<and> batch_size cfg \<le> int n) \<and>
         (\<not> is_dqn cfg \<longrightarrow> steps_exploration cfg \<le> t \<and>
            (batch_size cfg \<le> steps_exploration cfg + 1 \<longrightarrow> batch_size cfg \<le> int n))"
proof -
  obtain s1 r1 where rs: "run_steps cfg w is_running (nat (steps_training cfg)) 0 initial_state = (s1, r1)"
    by (cases "run_steps cfg w is_running (nat (steps_training cfg)) 0 (initial_state :: 'a loop_state)")
  have tl: "trace (fst (training_loop cfg w is_running)) = trace s1 \<or>
        trace (fst (training_loop cfg w is_running)) =
          trace s1 @ [SaveLogs, PolicyLoopTest TrainingEnv, TrainingCompletedSignal (training_completed s1)]"
    using rs by (auto simp: training_loop_def split: option.splits)
  with assms have mem: "TrainPolicy t b n \<in> set (trace s1)" by auto
  from run_steps_effect[OF rs] obtain evs where
    evs: "trace s1 = trace initial_state @ evs"
    "\<forall>e\<in>set evs. e = PrintInterrupted \<or>
        (\<exists>t' s''. 0 \<le> t' \<and> t' < 0 + int (nat (steps_training cfg)) \<and> iteration_event cfg w t' s'' e \<and>
           (\<not> is_ppo cfg \<longrightarrow> int (length (memory s'')) = int (length (memory (initial_state :: 'a loop_state))) + (t' - 0)))"
    by blast
  from mem evs(1) have "TrainPolicy t b n \<in> set evs" by (simp add: initial_state_def)
  with evs(2) obtain t' s'' where
    "iteration_event cfg w t' s'' (TrainPolicy t b n)"
    "\<not> is_ppo cfg \<longrightarrow> int (length (memory s'')) = int (length (memory (initial_state :: 'a loop_state))) + (t' - 0)"
    by blast
  then show ?thesis by (auto simp: initial_state_def split: if_splits)
qed

text \<open>In the end-to-end scenario the first update happens in iteration 3, on 4 transitions.\<close>

theorem train_policy_memory_gate_witness:
  "TrainPolicy 3 2 4 \<in> set (trace (fst (training_loop end_to_end_config stub_world True))) \<and>
   \<not> is_ppo end_to_end_config \<and> \<not> is_dqn end_to_end_config \<and>
   batch_size end_to_end_config \<le> steps_exploration end_to_end_config + 1 \<and>
   2 = batch_size end_to_end_config \<and> int 4 = 3 + 1 \<and>
   steps_exploration end_to_end_config \<le> 3 \<and> batch_size end_to_end_config \<le> int 4"
proof -
  have mem: "TrainPolicy 3 2 4 \<in> set (trace (fst (training_loop end_to_end_config stub_world True)))"
    by code_simp
  have fam: "\<not> is_dqn end_to_end_config"
    and small: "batch_size end_to_end_config \<le> steps_exploration end_to_end_config + 1"
    by (simp_all add: is_dqn_def end_to_end_config_def)
  from train_policy_memory_gate[OF mem] mem fam small show ?thesis by blast
qed

text \<open>
  Claim C1 as stated fails for the generic family: with no exploration steps and batch
  size 32 the very first iteration calls \<open>train_policy\<close> on a memory of one transition.
\<close>

theorem train_policy_before_batch_counterexample:
  "TrainPolicy 0 32 1 \<in> set (trace (fst (training_loop
      (end_to_end_config\<lparr>steps_training := 1, batch_size := 32, steps_exploration := 0\<rparr>)
      stub_world True))) \<and>
   int 1 < batch_size (end_to_end_config\<lparr>steps_training := 1, batch_size := 32, steps_exploration := 0\<rparr>)"
  by code_simp

text \<open>
  Claim C2. A run that does not raise ends with the log flush, the policy-verification
  pass and then the completion flag, in this order and on both exits of the loop. The
  flag is true exactly when as many iterations completed as the step budget asks for,
  which is exactly when the loop was not interrupted.
\<close>

theorem completion_flag:
  assumes "snd (training_loop cfg w is_running) = None"
  shows "\<exists>pre. trace (fst (training_loop cfg w is_running)) =
           pre @ [SaveLogs, PolicyLoopTest TrainingEnv,
                  TrainingCompletedSignal (steps_done pre = nat (steps_training cfg))] \<and>
         (steps_done pre = nat (steps_training cfg)) = (PrintInterrupted \<notin> set pre) \<and>
         (PrintInterrupted \<in> set pre) = (\<not> is_running \<and> 0 < steps_training cfg) \<and>
         SaveLogs \<notin> set pre \<and> PolicyLoopTest TrainingEnv \<notin> set pre"
proof -
  obtain s1 r1 where rs: "run_steps cfg w is_running (nat (steps_training cfg)) 0 initial_state = (s1, r1)"
    by (cases "run_steps cfg w is_running (nat (steps_training cfg)) 0 (initial_state :: 'a loop_state)")
  have tl_eq: "training_loop cfg w is_running =
      (case r1 of Some e \<Rightarrow> (s1, Some e) | None \<Rightarrow> (finalize s1, None))"
    by (simp add: training_loop_def rs)
  have r1: "r1 = None"
    using assms unfolding tl_eq by (cases r1) simp_all
  have tl: "fst (training_loop cfg w is_running) = finalize s1"
    unfolding tl_eq r1 by simp
  from rs obtain evs where
    evs: "trace s1 = trace initial_state @ evs"
    "\<forall>e\<in>set evs. e = PrintInterrupted \<or>
        (\<exists>t' s''. 0 \<le> t' \<and> t' < 0 + int (nat (steps_training cfg)) \<and> iteration_event cfg w t' s'' e \<and>
           (\<not> is_ppo cfg \<longrightarrow> int (length (memory s'')) = int (length (memory (initial_state :: 'a loop_state))) + (t' - 0)))"
    "r1 = None \<longrightarrow> steps_done evs = (if is_running then nat (steps_training cfg) else 0) \<and>
        (PrintInterrupted \<in> set evs \<longleftrightarrow> \<not> is_running \<and> 0 < nat (steps_training cfg)) \<and>
        training_completed s1 = (training_completed (initial_state :: 'a loop_state) \<and> (is_running \<or> nat (steps_training cfg) = 0))"
    by (rule run_steps_effectE)
  have tr: "trace s1 = evs" using evs(1) by (simp add: initial_state_def)
  have sd: "steps_done evs = (if is_running then nat (steps_training cfg) else 0)"
    and pi: "PrintInterrupted \<in> set evs \<longleftrightarrow> \<not> is_running \<and> 0 < nat (steps_training cfg)"
    and tc: "training_completed s1 = (is_running \<or> nat (steps_training cfg) = 0)"
    using evs(3) r1 by (simp_all add: initial_state_def)
  have flag: "training_completed s1 = (steps_done evs = nat (steps_training cfg))"
    using sd tc by auto
  have nofin: "e \<noteq> SaveLogs \<and> e \<noteq> PolicyLoopTest TrainingEnv" if "e \<in> set evs" for e
  proof -
    from evs(2) that consider "e = PrintInterrupted" | t' s'' where "iteration_event cfg w t' s'' e"
      by blast
    then show ?thesis
    proof cases
      case 1 then show ?thesis by simp
    next
      case 2 then show ?thesis by (rule iteration_event_not_final)
    qed
  qed
  have "trace (fst (training_loop cfg w is_running)) =
           evs @ [SaveLogs, PolicyLoopTest TrainingEnv,
                  TrainingCompletedSignal (steps_done evs = nat (steps_training cfg))]"
    using tl tr flag by simp
  moreover have "(steps_done evs = nat (steps_training cfg)) = (PrintInterrupted \<notin> set evs)"
    using sd pi by auto
  moreover have "(PrintInterrupted \<in> set evs) = (\<not> is_running \<and> 0 < steps_training cfg)"
    using pi by simp
  moreover have "SaveLogs \<notin> set evs" using nofin by blast
  moreover have "PolicyLoopTest TrainingEnv \<notin> set evs" using nofin by blast
  ultimately show ?thesis by (intro exI[of _ evs] conjI)
qed

text \<open>A run whose \<open>is_running\<close> argument is false: interrupted, flushed, verified, flagged.\<close>

theorem completion_flag_witness:
  "snd (training_loop end_to_end_config stub_world False) = None \<and>
   (\<exists>pre. trace (fst (training_loop end_to_end_config stub_world False)) =
           pre @ [SaveLogs, PolicyLoopTest TrainingEnv,
                  TrainingCompletedSignal (steps_done pre = nat (steps_training end_to_end_config))] \<and>
         (steps_done pre = nat (steps_training end_to_end_config)) = (PrintInterrupted \<notin> set pre) \<and>
         (PrintInterrupted \<in> set pre) = (\<not> False \<and> 0 < steps_training end_to_end_config) \<and>
         SaveLogs \<notin> set pre \<and> PolicyLoopTest TrainingEnv \<notin> set pre)"
proof -
  have h: "snd (training_loop end_to_end_config stub_world False) = None"
    by code_simp
  from h completion_flag[OF h] show ?thesis by (rule conjI)
qed

text \<open>
  Claim C3 evaluated on the code, in the cancellation scenario of the specification: the
  observer calls \<open>stop\<close> after the sixth step of a ten-step run. The attribute of the
  thread is false from then on, but the loop tests its own parameter, bound to
  \<open>True\<close> when \<open>run\<close> called it: it performs all ten steps and signals completion.
\<close>

theorem stop_request_not_observed:
  "is_running_attr (thread (exec end_to_end_config stub_world
      (StartThread # replicate 6 Tick @ StopRequest # replicate 5 Tick) system_init)) = False \<and>
   map_option (\<lambda>f. (finished f, steps_done (trace (locals f)), last (trace (locals f))))
     (worker (exec end_to_end_config stub_world
        (StartThread # replicate 6 Tick @ StopRequest # replicate 5 Tick) system_init))
     = Some (True, 10, TrainingCompletedSignal True)"
  by code_simp

text \<open>
  Claim C4, as the code has it. Every rate that random-action selection compares against
  is at least \<open>epsilon_min\<close>. When \<open>0 \<le> epsilon_decay\<close> and \<open>epsilon_min \<le> 1\<close>, the
  rate after the \<open>k\<close>-th decay application is \<open>max epsilon_min (1 * epsilon_decay ^ k)\<close>,
  for every application of the run and for the rate the run ends with.
\<close>

theorem exploration_schedule:
  "(\<forall>x\<in>set (decay_rates (trace (fst (training_loop cfg w is_running)))). epsilon_min cfg \<le> x) \<and>
   (0 \<le> epsilon_decay cfg \<and> epsilon_min cfg \<le> 1 \<longrightarrow>
      (\<forall>k<length (decay_rates (trace (fst (training_loop cfg w is_running)))).
          decay_rates (trace (fst (training_loop cfg w is_running))) ! k =
            max (epsilon_min cfg) (1 * epsilon_decay cfg ^ Suc k)) \<and>
      exploration_rate (fst (training_loop cfg w is_running)) =
        max (epsilon_min cfg)
          (1 * epsilon_decay cfg ^ length (decay_rates (trace (fst (training_loop cfg w is_running))))))"
proof -
  obtain s1 r1 where rs: "run_steps cfg w is_running (nat (steps_training cfg)) 0 initial_state = (s1, r1)"
    by (cases "run_steps cfg w is_running (nat (steps_training cfg)) 0 (initial_state :: 'a loop_state)")
  have tl: "decay_rates (trace (fst (training_loop cfg w is_running))) = decay_rates (trace s1)"
    "exploration_rate (fst (training_loop cfg w is_running)) = exploration_rate s1"
    using rs by (auto simp: training_loop_def split: option.splits)
  from run_steps_effect[OF rs] obtain evs where
    evs: "trace s1 = trace initial_state @ evs"
    "\<forall>e\<in>set evs. e = PrintInterrupted \<or> (\<exists>t' s''. iteration_event cfg w t' s'' e)"
    by blast
  have floor: "\<forall>x\<in>set (decay_rates (trace s1)). epsilon_min cfg \<le> x"
  proof
    fix x assume "x \<in> set (decay_rates (trace s1))"
    then obtain t where "DecayExploration t x \<in> set evs"
      using evs(1) by (auto simp: decay_rates_mem initial_state_def)
    with evs(2) obtain t' s'' where "iteration_event cfg w t' s'' (DecayExploration t x)" by blast
    then show "epsilon_min cfg \<le> x" by (simp add: decay_exploration_floor)
  qed
  have closed: "(\<forall>k<length (decay_rates (trace s1)).
          decay_rates (trace s1) ! k = max (epsilon_min cfg) (epsilon_decay cfg ^ Suc k)) \<and>
      exploration_rate s1 = max (epsilon_min cfg) (epsilon_decay cfg ^ length (decay_rates (trace s1)))"
    if "0 \<le> epsilon_decay cfg" "epsilon_min cfg \<le> 1"
    using run_steps_rates[OF rs that] that(2) by (simp add: initial_state_def)
  show ?thesis using floor closed by (simp add: tl)
qed

text \<open>Three decay applications with \<open>epsilon_min = 1/10\<close> and \<open>epsilon_decay = 1/2\<close>.\<close>

theorem exploration_schedule_witness:
  "0 \<le> epsilon_decay dqn_config \<and> epsilon_min dqn_config \<le> 1 \<and>
   decay_rates (trace (fst (training_loop dqn_config stub_world True))) = [1 / 2, 1 / 4, 1 / 8] \<and>
   epsilon_min dqn_config \<le> 1 / 8 \<and>
   decay_rates (trace (fst (training_loop dqn_config stub_world True))) ! 2 =
     max (epsilon_min dqn_config) (1 * epsilon_decay dqn_config ^ Suc 2) \<and>
   exploration_rate (fst (training_loop dqn_config stub_world True)) =
     max (epsilon_min dqn_config) (1 * epsilon_decay dqn_config ^ 3)"
proof -
  let ?rates = "decay_rates (trace (fst (training_loop dqn_config stub_world True)))"
  have h: "0 \<le> epsilon_decay dqn_config \<and> epsilon_min dqn_config \<le> 1"
    by (simp add: dqn_config_def)
  have r: "?rates = [1 / 2, 1 / 4, 1 / 8]"
    by code_simp
  have len: "length ?rates = 3" "(2::nat) < length ?rates" "1 / 8 \<in> set ?rates"
    by (simp_all add: r)
  from exploration_schedule[of dqn_config stub_world True] h
  have fl: "\<forall>x\<in>set ?rates. epsilon_min dqn_config \<le> x"
    and cf: "\<forall>k<length ?rates. ?rates ! k = max (epsilon_min dqn_config) (1 * epsilon_decay dqn_config ^ Suc k)"
    and fin: "exploration_rate (fst (training_loop dqn_config stub_world True)) =
       max (epsilon_min dqn_config) (1 * epsilon_decay dqn_config ^ length ?rates)"
    by blast+
  from fl len(3) have a: "epsilon_min dqn_config \<le> 1 / 8" by blast
  from cf len(2) have b: "?rates ! 2 = max (epsilon_min dqn_config) (1 * epsilon_decay dqn_config ^ Suc 2)"
    by blast
  from fin have c: "exploration_rate (fst (training_loop dqn_config stub_world True)) =
       max (epsilon_min dqn_config) (1 * epsilon_decay dqn_config ^ 3)"
    unfolding len(1) .
  from h r a b c show ?thesis by blast
qed

text \<open>
  Claim C4 as stated fails outside that range, because the clamp is applied after every
  multiplication: with \<open>epsilon_min = 2\<close> and \<open>epsilon_decay = 3/2\<close> the second rate is
  \<open>3\<close>, not \<open>9/4\<close>; with \<open>epsilon_min = 1/10\<close> and \<open>epsilon_decay = -1/2\<close> it is
  \<open>1/10\<close>, not \<open>1/4\<close>.
\<close>

theorem exploration_schedule_counterexample:
  "decay_rates (trace (fst (training_loop
      (dqn_config\<lparr>epsilon_min := 2, epsilon_decay := 3 / 2\<rparr>) stub_world True))) ! 1 = 3 \<and>
   max (epsilon_min (dqn_config\<lparr>epsilon_min := 2, epsilon_decay := 3 / 2\<rparr>))
       (1 * epsilon_decay (dqn_config\<lparr>epsilon_min := 2, epsilon_decay := 3 / 2\<rparr>) ^ 2) = 9 / 4 \<and>
   decay_rates (trace (fst (training_loop
      (dqn_config\<lparr>epsilon_min := 1 / 10, epsilon_decay := - 1 / 2\<rparr>) stub_world True))) ! 1 = 1 / 10 \<and>
   max (epsilon_min (dqn_config\<lparr>epsilon_min := 1 / 10, epsilon_decay := - 1 / 2\<rparr>))
       (1 * epsilon_decay (dqn_config\<lparr>epsilon_min := 1 / 10, epsilon_decay := - 1 / 2\<rparr>) ^ 2) = 1 / 4"
  by code_simp



section \<open>Properties of the agents\<close>

subsection \<open>DQN: the learning-step counter and the hard update\<close>

lemma py_mod_is_zero_cases:
  "py_mod_is_zero a b = (if b = 0 then Inl ZeroDivisionError else Inr (b dvd a))"
  by (simp add: py_mod_is_zero_def mod_eq_0_iff_dvd)

lemma DQN_train_policy_cases:
  fixes s :: "'o DQN"
  obtains
    (sampling) e where "sample mem b = Inl e"
      "DQN_train_policy forward adam sample s mem b = (s, Some e)"
  | (reshape) ex where "sample mem b = Inr ex"
      "\<not> (has_rows (actions ex) b \<and> has_rows (rewards ex) b \<and> has_rows (dones ex) b)"
      "DQN_train_policy forward adam sample s mem b = (s, Some RuntimeError)"
  | (step) ex e where "sample mem b = Inr ex"
      "has_rows (actions ex) b \<and> has_rows (rewards ex) b \<and> has_rows (dones ex) b"
      "adam (dqn_optimiser s) (dqn_loss forward s ex) (dqn_net s) = Inl e"
      "DQN_train_policy forward adam sample s mem b = (s, Some e)"
  | (zero) ex p opt where "sample mem b = Inr ex"
      "has_rows (actions ex) b \<and> has_rows (rewards ex) b \<and> has_rows (dones ex) b"
      "adam (dqn_optimiser s) (dqn_loss forward s ex) (dqn_net s) = Inr (p, opt)"
      "dqn_target_update_freq s = 0"
      "DQN_train_policy forward adam sample s mem b =
         (s\<lparr>dqn_net := p, dqn_optimiser := opt, dqn_learn_counter := dqn_learn_counter s + 1\<rparr>,
          Some ZeroDivisionError)"
  | (sync) ex p opt where "sample mem b = Inr ex"
      "has_rows (actions ex) b \<and> has_rows (rewards ex) b \<and> has_rows (dones ex) b"
      "adam (dqn_optimiser s) (dqn_loss forward s ex) (dqn_net s) = Inr (p, opt)"
      "dqn_target_update_freq s \<noteq> 0" "dqn_target_update_freq s dvd dqn_learn_counter s + 1"
      "DQN_train_policy forward adam sample s mem b =
         (s\<lparr>dqn_net := p, dqn_optimiser := opt, dqn_learn_counter := dqn_learn_counter s + 1,
            dqn_target_net := p\<rparr>, None)"
  | (keep) ex p opt where "sample mem b = Inr ex"
      "has_rows (actions ex) b \<and> has_rows (rewards ex) b \<and> has_rows (dones ex) b"
      "adam (dqn_optimiser s) (dqn_loss forward s ex) (dqn_net s) = Inr (p, opt)"
      "dqn_target_update_freq s \<noteq> 0" "\<not> dqn_target_update_freq s dvd dqn_learn_counter s + 1"
      "DQN_train_policy forward adam sample s mem b =
         (s\<lparr>dqn_net := p, dqn_optimiser := opt, dqn_learn_counter := dqn_learn_counter s + 1\<rparr>,
          None)"
proof (cases "sample mem b")
  case (Inl e)
  then show ?thesis using sampling by (simp add: DQN_train_policy_def)
next
  case (Inr ex)
  show ?thesis
  proof (cases "has_rows (actions ex) b \<and> has_rows (rewards ex) b \<and> has_rows (dones ex) b")
    case False
    then show ?thesis using reshape[OF Inr] Inr by (simp add: DQN_train_policy_def)
  next
    case True
    show ?thesis
    proof (cases "adam (dqn_optimiser s) (dqn_loss forward s ex) (dqn_net s)")
      case (Inl e)
      then show ?thesis using step[OF Inr True] Inr True by (simp add: DQN_train_policy_def)
    next
      case (Inr po)
      obtain p opt where po: "po = (p, opt)" by (cases po)
      note a = Inr[unfolded po]
      consider "dqn_target_update_freq s = 0"
        | "dqn_target_update_freq s \<noteq> 0" "dqn_target_update_freq s dvd dqn_learn_counter s + 1"
        | "dqn_target_update_freq s \<noteq> 0" "\<not> dqn_target_update_freq s dvd dqn_learn_counter s + 1"
        by blast
      then show ?thesis
      proof cases
        case 1
        then show ?thesis
          using zero[OF \<open>sample mem b = Inr ex\<close> True a] \<open>sample mem b = Inr ex\<close> True a
          by (simp add: DQN_train_policy_def Let_def py_mod_is_zero_cases)
      next
        case 2
        then show ?thesis
          using sync[OF \<open>sample mem b = Inr ex\<close> True a] \<open>sample mem b = Inr ex\<close> True a
          by (simp add: DQN_train_policy_def Let_def py_mod_is_zero_cases)
      next
        case 3
        then show ?thesis
          using keep[OF \<open>sample mem b = Inr ex\<close> True a] \<open>sample mem b = Inr ex\<close> True a
          by (simp add: DQN_train_policy_def Let_def py_mod_is_zero_cases)
      qed
    qed
  qed
qed

lemma DQN_train_policy_ok:
  assumes "snd (DQN_train_policy forward adam sample s mem b) = None"
  shows "dqn_learn_counter (fst (DQN_train_policy forward adam sample s mem b)) = dqn_learn_counter s + 1"
    and "dqn_target_update_freq (fst (DQN_train_policy forward adam sample s mem b)) = dqn_target_update_freq s"
    and "\<exists>ex opt. sample mem b = Inr ex \<and>
           (has_rows (actions ex) b \<and> has_rows (rewards ex) b \<and> has_rows (dones ex) b) \<and>
           adam (dqn_optimiser s) (dqn_loss forward s ex) (dqn_net s) =
             Inr (dqn_net (fst (DQN_train_policy forward adam sample s mem b)), opt)"
    and "dqn_target_update_freq s dvd dqn_learn_counter (fst (DQN_train_policy forward adam sample s mem b)) \<longrightarrow>
           dqn_target_net (fst (DQN_train_policy forward adam sample s mem b)) =
             dqn_net (fst (DQN_train_policy forward adam sample s mem b))"
    and "\<not> dqn_target_update_freq s dvd dqn_learn_counter (fst (DQN_train_policy forward adam sample s mem b)) \<longrightarrow>
           dqn_target_net (fst (DQN_train_policy forward adam sample s mem b)) = dqn_target_net s"
  using assms by (cases rule: DQN_train_policy_cases[of sample mem b forward adam s]; simp)+

lemma DQN_train_policy_any:
  "dqn_target_net (fst (DQN_train_policy forward adam sample s mem b)) \<noteq> dqn_target_net s \<longrightarrow>
     snd (DQN_train_policy forward adam sample s mem b) = None \<and>
     dqn_target_update_freq s dvd dqn_learn_counter (fst (DQN_train_policy forward adam sample s mem b)) \<and>
     dqn_target_net (fst (DQN_train_policy forward adam sample s mem b)) =
       dqn_net (fst (DQN_train_policy forward adam sample s mem b))"
  "dqn_learn_counter (fst (DQN_train_policy forward adam sample s mem b)) = dqn_learn_counter s \<or>
   dqn_learn_counter (fst (DQN_train_policy forward adam sample s mem b)) = dqn_learn_counter s + 1"
  by (cases rule: DQN_train_policy_cases[of sample mem b forward adam s]; simp)+

lemma DQN_train_policy_reshape:
  assumes "sample mem b = Inr ex"
    "\<not> (has_rows (actions ex) b \<and> has_rows (rewards ex) b \<and> has_rows (dones ex) b)"
  shows "DQN_train_policy forward adam sample s mem b = (s, Some RuntimeError)"
  using assms by (simp add: DQN_train_policy_def)

lemma DQN_train_repeat_counter:
  "snd (DQN_train_repeat forward adam sample n s mem b) = None \<Longrightarrow>
   dqn_learn_counter (fst (DQN_train_repeat forward adam sample n s mem b)) = dqn_learn_counter s + int n"
proof (induction n arbitrary: s)
  case 0
  then show ?case by simp
next
  case (Suc n)
  obtain s1 r1 where tp: "DQN_train_policy forward adam sample s mem b = (s1, r1)"
    by (cases "DQN_train_policy forward adam sample s mem b")
  show ?case
  proof (cases r1)
    case (Some e)
    with Suc.prems tp show ?thesis by simp
  next
    case None
    have c1: "dqn_learn_counter s1 = dqn_learn_counter s + 1"
      using DQN_train_policy_ok(1)[of forward adam sample s mem b] tp None by simp
    have rest: "snd (DQN_train_repeat forward adam sample n s1 mem b) = None"
      using Suc.prems tp None by simp
    from Suc.IH[OF rest] show ?thesis using tp None c1 by simp
  qed
qed

subsection \<open>The soft update\<close>

lemma soft_update_length: "length (soft_update tau source target) = length target"
  by (simp add: soft_update_def)

lemma soft_update_nth:
  assumes "i < length source" "i < length target"
  shows "soft_update tau source target ! i =
           tadd (tmul tau (source ! i)) (tmul (1 - tau) (target ! i))"
  using assms by (simp add: soft_update_def nth_append)

lemma soft_update_entry:
  assumes "map length source = map length target" "i < length target" "j < length (target ! i)"
  shows "soft_update tau source target ! i ! j =
           tau * source ! i ! j + (1 - tau) * target ! i ! j"
proof -
  from assms(1) have len: "length source = length target" by (rule map_eq_imp_length_eq)
  have "map length source ! i = map length target ! i" using assms(1) by simp
  then have shape: "length (source ! i) = length (target ! i)"
    using len assms(2) by simp
  show ?thesis
    using soft_update_nth[of i source target tau] len assms(2,3) shape
    by (simp add: tadd_def tmul_def)
qed

lemma soft_update_eqI:
  assumes "map length source = map length target"
    and "\<And>i j. i < length target \<Longrightarrow> j < length (target ! i) \<Longrightarrow>
           tau * source ! i ! j + (1 - tau) * target ! i ! j = r ! i ! j"
    and "map length r = map length target"
  shows "soft_update tau source target = r"
proof (rule nth_equalityI)
  from assms(3) have lr: "length r = length target" by (rule map_eq_imp_length_eq)
  from assms(1) have ls: "length source = length target" by (rule map_eq_imp_length_eq)
  show "length (soft_update tau source target) = length r" by (simp add: soft_update_length lr)
  fix i assume "i < length (soft_update tau source target)"
  then have i: "i < length target" by (simp add: soft_update_length)
  have "map length r ! i = map length target ! i" using assms(3) by simp
  then have sr: "length (r ! i) = length (target ! i)" using i lr by simp
  have "map length source ! i = map length target ! i" using assms(1) by simp
  then have ss: "length (source ! i) = length (target ! i)" using i ls by simp
  show "soft_update tau source target ! i = r ! i"
  proof (rule nth_equalityI)
    show "length (soft_update tau source target ! i) = length (r ! i)"
      using soft_update_nth[of i source target tau] i ls ss sr by (simp add: tadd_def tmul_def)
    fix j assume "j < length (soft_update tau source target ! i)"
    then have j: "j < length (target ! i)"
      using soft_update_nth[of i source target tau] i ls ss by (simp add: tadd_def tmul_def)
    show "soft_update tau source target ! i ! j = r ! i ! j"
      using soft_update_entry[OF assms(1) i j] assms(2)[OF i j] by simp
  qed
qed

lemma soft_update_tau_one:
  "map length source = map length target \<Longrightarrow> soft_update 1 source target = source"
  by (rule soft_update_eqI) simp_all

lemma soft_update_tau_zero:
  "map length source = map length target \<Longrightarrow> soft_update 0 source target = target"
  by (rule soft_update_eqI) simp_all

lemma DDPG_update_critic_frame:
  "ddpg_tau (fst (DDPG_update_critic m adam s b)) = ddpg_tau s"
  "ddpg_actor_net (fst (DDPG_update_critic m adam s b)) = ddpg_actor_net s"
  "ddpg_target_actor_net (fst (DDPG_update_critic m adam s b)) = ddpg_target_actor_net s"
  "ddpg_target_critic_net (fst (DDPG_update_critic m adam s b)) = ddpg_target_critic_net s"
  by (simp_all add: DDPG_update_critic_def Let_def split: sum.splits prod.splits)

lemma DDPG_update_actor_frame:
  "ddpg_tau (fst (DDPG_update_actor m adam s b)) = ddpg_tau s"
  "ddpg_critic_net (fst (DDPG_update_actor m adam s b)) = ddpg_critic_net s"
  "ddpg_target_actor_net (fst (DDPG_update_actor m adam s b)) = ddpg_target_actor_net s"
  "ddpg_target_critic_net (fst (DDPG_update_actor m adam s b)) = ddpg_target_critic_net s"
  by (simp_all add: DDPG_update_actor_def Let_def split: sum.splits prod.splits)

lemma DDPG_train_policy_unfold:
  "DDPG_train_policy m adam sample s mem b =
     (case sample mem b of
        Inl e \<Rightarrow> (s, Some e)
      | Inr ex \<Rightarrow>
          if \<not> (has_rows (rewards ex) b \<and> has_rows (dones ex) b) then (s, Some RuntimeError)
          else if snd (DDPG_update_critic m adam s ex) \<noteq> None
          then DDPG_update_critic m adam s ex
          else if snd (DDPG_update_actor m adam (fst (DDPG_update_critic m adam s ex)) ex) \<noteq> None
          then DDPG_update_actor m adam (fst (DDPG_update_critic m adam s ex)) ex
          else
            ((fst (DDPG_update_actor m adam (fst (DDPG_update_critic m adam s ex)) ex))
               \<lparr>ddpg_target_critic_net :=
                  soft_update (ddpg_tau s)
                    (ddpg_critic_net (fst (DDPG_update_actor m adam (fst (DDPG_update_critic m adam s ex)) ex)))
                    (ddpg_target_critic_net s),
                ddpg_target_actor_net :=
                  soft_update (ddpg_tau s)
                    (ddpg_actor_net (fst (DDPG_update_actor m adam (fst (DDPG_update_critic m adam s ex)) ex)))
                    (ddpg_target_actor_net s)\<rparr>, None))"
proof (cases "sample mem b")
  case (Inl e)
  then show ?thesis by (simp add: DDPG_train_policy_def)
next
  case (Inr ex)
  obtain s1 r1 where c: "DDPG_update_critic m adam s ex = (s1, r1)"
    by (cases "DDPG_update_critic m adam s ex")
  obtain s2 r2 where a: "DDPG_update_actor m adam s1 ex = (s2, r2)"
    by (cases "DDPG_update_actor m adam s1 ex")
  have f1: "ddpg_tau s1 = ddpg_tau s" "ddpg_target_actor_net s1 = ddpg_target_actor_net s"
    "ddpg_target_critic_net s1 = ddpg_target_critic_net s"
    using DDPG_update_critic_frame(1,3,4)[of m adam s ex] c by simp_all
  have f2: "ddpg_tau s2 = ddpg_tau s1" "ddpg_target_actor_net s2 = ddpg_target_actor_net s1"
    "ddpg_target_critic_net s2 = ddpg_target_critic_net s1"
    using DDPG_update_actor_frame(1,3,4)[of m adam s1 ex] a by simp_all
  show ?thesis
    using Inr c a f1 f2
    by (cases r1; cases r2) (simp_all add: DDPG_train_policy_def Let_def)
qed

lemma DDPG_train_policy_targets:
  "snd (DDPG_train_policy m adam sample s mem b) = None \<longrightarrow>
     ddpg_target_critic_net (fst (DDPG_train_policy m adam sample s mem b)) =
       soft_update (ddpg_tau s) (ddpg_critic_net (fst (DDPG_train_policy m adam sample s mem b)))
         (ddpg_target_critic_net s) \<and>
     ddpg_target_actor_net (fst (DDPG_train_policy m adam sample s mem b)) =
       soft_update (ddpg_tau s) (ddpg_actor_net (fst (DDPG_train_policy m adam sample s mem b)))
         (ddpg_target_actor_net s)"
  "snd (DDPG_train_policy m adam sample s mem b) \<noteq> None \<longrightarrow>
     ddpg_target_critic_net (fst (DDPG_train_policy m adam sample s mem b)) = ddpg_target_critic_net s \<and>
     ddpg_target_actor_net (fst (DDPG_train_policy m adam sample s mem b)) = ddpg_target_actor_net s"
  unfolding DDPG_train_policy_unfold
  by (auto simp: DDPG_update_critic_frame DDPG_update_actor_frame split: sum.splits)

lemma SAC_update_critic_frame:
  "sac_tau (fst (SAC_update_critic m s b noise)) = sac_tau s"
  "sac_actor_net (fst (SAC_update_critic m s b noise)) = sac_actor_net s"
  "sac_target_critic_net (fst (SAC_update_critic m s b noise)) = sac_target_critic_net s"
  "sac_log_alpha (fst (SAC_update_critic m s b noise)) = sac_log_alpha s"
  "sac_learn_counter (fst (SAC_update_critic m s b noise)) = sac_learn_counter s"
  "sac_policy_update_freq (fst (SAC_update_critic m s b noise)) = sac_policy_update_freq s"
  by (simp_all add: SAC_update_critic_def Let_def split: sum.splits prod.splits)

lemma SAC_update_actor_alpha_frame:
  "sac_tau (fst (SAC_update_actor_alpha m s b noise)) = sac_tau s"
  "sac_critic_net (fst (SAC_update_actor_alpha m s b noise)) = sac_critic_net s"
  "sac_target_critic_net (fst (SAC_update_actor_alpha m s b noise)) = sac_target_critic_net s"
  "sac_learn_counter (fst (SAC_update_actor_alpha m s b noise)) = sac_learn_counter s"
  "sac_policy_update_freq (fst (SAC_update_actor_alpha m s b noise)) = sac_policy_update_freq s"
  by (simp_all add: SAC_update_actor_alpha_def Let_def split: sum.splits prod.splits)

lemma SAC_train_policy_unfold:
  "SAC_train_policy m sample s mem b nc na =
     (case sample mem b of
        Inl e \<Rightarrow> (s\<lparr>sac_learn_counter := sac_learn_counter s + 1\<rparr>, Some e)
      | Inr ex \<Rightarrow>
          if \<not> (has_rows (rewards ex) b \<and> has_rows (dones ex) b)
          then (s\<lparr>sac_learn_counter := sac_learn_counter s + 1\<rparr>, Some RuntimeError)
          else if snd (SAC_update_critic m (s\<lparr>sac_learn_counter := sac_learn_counter s + 1\<rparr>) ex nc) \<noteq> None
          then SAC_update_critic m (s\<lparr>sac_learn_counter := sac_learn_counter s + 1\<rparr>) ex nc
          else if snd (SAC_update_actor_alpha m
                  (fst (SAC_update_critic m (s\<lparr>sac_learn_counter := sac_learn_counter s + 1\<rparr>) ex nc))
                  ex na) \<noteq> None
          then SAC_update_actor_alpha m
                  (fst (SAC_update_critic m (s\<lparr>sac_learn_counter := sac_learn_counter s + 1\<rparr>) ex nc))
                  ex na
          else if sac_policy_update_freq s = 0
          then (fst (SAC_update_actor_alpha m
                  (fst (SAC_update_critic m (s\<lparr>sac_learn_counter := sac_learn_counter s + 1\<rparr>) ex nc))
                  ex na), Some ZeroDivisionError)
          else if sac_policy_update_freq s dvd sac_learn_counter s + 1
          then ((fst (SAC_update_actor_alpha m
                  (fst (SAC_update_critic m (s\<lparr>sac_learn_counter := sac_learn_counter s + 1\<rparr>) ex nc))
                  ex na))
                 \<lparr>sac_target_critic_net :=
                    soft_update (sac_tau s)
                      (sac_critic_net (fst (SAC_update_critic m
                         (s\<lparr>sac_learn_counter := sac_learn_counter s + 1\<rparr>) ex nc)))
                      (sac_target_critic_net s)\<rparr>, None)
          else (fst (SAC_update_actor_alpha m
                  (fst (SAC_update_critic m (s\<lparr>sac_learn_counter := sac_learn_counter s + 1\<rparr>) ex nc))
                  ex na), None))"
proof (cases "sample mem b")
  case (Inl e)
  then show ?thesis by (simp add: SAC_train_policy_def Let_def)
next
  case (Inr ex)
  let ?s0 = "s\<lparr>sac_learn_counter := sac_learn_counter s + 1\<rparr>"
  obtain s1 r1 where c: "SAC_update_critic m ?s0 ex nc = (s1, r1)"
    by (cases "SAC_update_critic m ?s0 ex nc")
  obtain s2 r2 where a: "SAC_update_actor_alpha m s1 ex na = (s2, r2)"
    by (cases "SAC_update_actor_alpha m s1 ex na")
  have f1: "sac_tau s1 = sac_tau s" "sac_target_critic_net s1 = sac_target_critic_net s"
    "sac_learn_counter s1 = sac_learn_counter s + 1" "sac_policy_update_freq s1 = sac_policy_update_freq s"
    using SAC_update_critic_frame(1,3,5,6)[of m ?s0 ex nc] c by simp_all
  have f2: "sac_tau s2 = sac_tau s1" "sac_target_critic_net s2 = sac_target_critic_net s1"
    "sac_learn_counter s2 = sac_learn_counter s1" "sac_policy_update_freq s2 = sac_policy_update_freq s1"
    "sac_critic_net s2 = sac_critic_net s1"
    using SAC_update_actor_alpha_frame(1,3,4,5,2)[of m s1 ex na] a by simp_all
  show ?thesis
    using Inr c a f1 f2
    by (cases r1; cases r2) (simp_all add: SAC_train_policy_def Let_def py_mod_is_zero_cases)
qed

lemma SAC_train_policy_target:
  "sac_policy_update_freq s = 1 \<and> snd (SAC_train_policy m sample s mem b nc na) = None \<longrightarrow>
     sac_target_critic_net (fst (SAC_train_policy m sample s mem b nc na)) =
       soft_update (sac_tau s) (sac_critic_net (fst (SAC_train_policy m sample s mem b nc na)))
         (sac_target_critic_net s)"
  "snd (SAC_train_policy m sample s mem b nc na) \<noteq> None \<longrightarrow>
     sac_target_critic_net (fst (SAC_train_policy m sample s mem b nc na)) = sac_target_critic_net s"
  unfolding SAC_train_policy_unfold
  by (auto simp: SAC_update_critic_frame SAC_update_actor_alpha_frame split: sum.splits)

subsection \<open>SAC: the critic update\<close>

lemma tensor_length [simp]:
  "length (tmul c x) = length x"
  "length (one_minus x) = length x"
  "length (tadd x y) = min (length x) (length y)"
  "length (tsub x y) = min (length x) (length y)"
  "length (tprod x y) = min (length x) (length y)"
  "length (tminimum x y) = min (length x) (length y)"
  by (simp_all add: tmul_def one_minus_def tadd_def tsub_def tprod_def tminimum_def)

lemma tensor_nth:
  "i < length x \<Longrightarrow> tmul c x ! i = c * x ! i"
  "i < length x \<Longrightarrow> one_minus x ! i = 1 - x ! i"
  "i < length x \<Longrightarrow> i < length y \<Longrightarrow> tadd x y ! i = x ! i + y ! i"
  "i < length x \<Longrightarrow> i < length y \<Longrightarrow> tsub x y ! i = x ! i - y ! i"
  "i < length x \<Longrightarrow> i < length y \<Longrightarrow> tprod x y ! i = x ! i * y ! i"
  "i < length x \<Longrightarrow> i < length y \<Longrightarrow> tminimum x y ! i = min (x ! i) (y ! i)"
  by (simp_all add: tmul_def one_minus_def tadd_def tsub_def tprod_def tminimum_def)

lemma sac_q_target_unfold:
  assumes "sac_actor m (sac_actor_net s) (next_states b) noise = (next_actions, next_log_pi, mu)"
    and "sac_critic m (sac_target_critic_net s) (next_states b) next_actions = (q1t, q2t)"
  shows "sac_q_target m s b noise =
           tadd (tmul (sac_reward_scale s) (rewards b))
             (tprod (tmul (sac_gamma s) (one_minus (dones b)))
                (tsub (tminimum q1t q2t) (tmul (alpha s) next_log_pi)))"
  using assms by (simp add: sac_q_target_def Let_def)

lemma sac_q_target_sample:
  assumes "sac_actor m (sac_actor_net s) (next_states b) noise = (next_actions, next_log_pi, mu)"
    and "sac_critic m (sac_target_critic_net s) (next_states b) next_actions = (q1t, q2t)"
    and "length (rewards b) = n" "length (dones b) = n"
    and "length q1t = n" "length q2t = n" "length next_log_pi = n"
    and "i < n"
  shows "sac_q_target m s b noise ! i =
           spec_sac_target (rewards b ! i) (sac_reward_scale s) (sac_gamma s) (dones b ! i)
             (q1t ! i) (q2t ! i) (exp (sac_log_alpha s)) (next_log_pi ! i)"
  unfolding sac_q_target_unfold[OF assms(1,2)] spec_sac_target_def alpha_def
  using assms(3-8) by (simp add: tensor_nth mult.commute)

lemma sac_q_target_length:
  assumes "sac_actor m (sac_actor_net s) (next_states b) noise = (next_actions, next_log_pi, mu)"
    and "sac_critic m (sac_target_critic_net s) (next_states b) next_actions = (q1t, q2t)"
    and "length (rewards b) = n" "length (dones b) = n"
    and "length q1t = n" "length q2t = n" "length next_log_pi = n"
  shows "length (sac_q_target m s b noise) = n"
  unfolding sac_q_target_unfold[OF assms(1,2)] using assms(3-7) by simp

lemma sac_q_target_counter:
  "sac_q_target m (s\<lparr>sac_learn_counter := c\<rparr>) b noise = sac_q_target m s b noise"
  by (simp add: sac_q_target_def alpha_def)

lemma SAC_update_critic_unfold:
  "SAC_update_critic m s b noise =
     (case sac_adam m (sac_critic_net_optimiser s)
             (sac_critic_loss_total m b (sac_q_target m s b noise)) (sac_critic_net s) of
        Inl e \<Rightarrow> (s, Some e)
      | Inr (p', o') \<Rightarrow> (s\<lparr>sac_critic_net := p', sac_critic_net_optimiser := o'\<rparr>, None))"
  by (simp add: SAC_update_critic_def Let_def)

lemma SAC_update_critic_ok:
  assumes "snd (SAC_update_critic m s b noise) = None"
  shows "\<exists>o'. sac_adam m (sac_critic_net_optimiser s)
             (sac_critic_loss_total m b (sac_q_target m s b noise)) (sac_critic_net s) =
           Inr (sac_critic_net (fst (SAC_update_critic m s b noise)), o')"
  using assms unfolding SAC_update_critic_unfold
  by (cases "sac_adam m (sac_critic_net_optimiser s)
             (sac_critic_loss_total m b (sac_q_target m s b noise)) (sac_critic_net s)") auto

lemma SAC_train_policy_critic:
  assumes "snd (SAC_train_policy m sample s mem bs nc na) = None"
  shows "\<exists>ex o'. sample mem bs = Inr ex \<and>
           (has_rows (rewards ex) bs \<and> has_rows (dones ex) bs) \<and>
           sac_adam m (sac_critic_net_optimiser s)
             (sac_critic_loss_total m ex (sac_q_target m s ex nc)) (sac_critic_net s) =
           Inr (sac_critic_net (fst (SAC_train_policy m sample s mem bs nc na)), o')"
proof (cases "sample mem bs")
  case (Inl e)
  with assms show ?thesis by (simp add: SAC_train_policy_unfold)
next
  case (Inr ex)
  let ?s0 = "s\<lparr>sac_learn_counter := sac_learn_counter s + 1\<rparr>"
  let ?c = "SAC_update_critic m ?s0 ex nc"
  let ?a = "SAC_update_actor_alpha m (fst ?c) ex na"
  from assms Inr have rows: "has_rows (rewards ex) bs \<and> has_rows (dones ex) bs"
    by (simp add: SAC_train_policy_unfold split: if_splits)
  from assms Inr rows have c_ok: "snd ?c = None"
    by (simp add: SAC_train_policy_unfold split: if_splits)
  from assms Inr rows c_ok have a_ok: "snd ?a = None"
    by (simp add: SAC_train_policy_unfold split: if_splits)
  have net: "sac_critic_net (fst (SAC_train_policy m sample s mem bs nc na)) = sac_critic_net (fst ?c)"
    using Inr rows c_ok a_ok
    by (simp add: SAC_train_policy_unfold SAC_update_actor_alpha_frame)
  from SAC_update_critic_ok[OF c_ok] obtain o' where
    "sac_adam m (sac_critic_net_optimiser ?s0)
       (sac_critic_loss_total m ex (sac_q_target m ?s0 ex nc)) (sac_critic_net ?s0) =
     Inr (sac_critic_net (fst ?c), o')"
    by blast
  then have "sac_adam m (sac_critic_net_optimiser s)
       (sac_critic_loss_total m ex (sac_q_target m s ex nc)) (sac_critic_net s) =
     Inr (sac_critic_net (fst (SAC_train_policy m sample s mem bs nc na)), o')"
    by (simp add: sac_q_target_counter net)
  with Inr rows show ?thesis by blast
qed

lemmas sac_eval = SAC_train_policy_def SAC_update_critic_def SAC_update_actor_alpha_def Let_def
  stub_sac_def stub_adam_def stub_sample_def stub_batch_def sac_agent_def SAC_init_def
  has_rows_def py_mod_is_zero_def

subsection \<open>Saving and loading\<close>

lemma model_path_inject [simp]:
  "model_path filepath filename x = model_path filepath filename y \<longleftrightarrow> x = y"
  by (simp add: model_path_def)

lemma parent_dir_append:
  assumes "CHR ''/'' \<notin> set rest"
  shows "parent_dir (d @ CHR ''/'' # rest) = d"
proof -
  have "dropWhile (\<lambda>c. c \<noteq> CHR ''/'') (rev rest @ CHR ''/'' # rev d) = CHR ''/'' # rev d"
    using assms by (auto simp: dropWhile_append3)
  then show ?thesis by (simp add: parent_dir_def)
qed

lemma parent_dir_model_path:
  assumes "CHR ''/'' \<notin> set filename" "CHR ''/'' \<notin> set suffix"
  shows "parent_dir (model_path filepath filename suffix) = filepath"
  using parent_dir_append[of "filename @ suffix" filepath] assms
  by (simp add: model_path_def)

lemma ancestors_shorter: "a \<in> set (ancestors p) \<Longrightarrow> length a < length p"
  by (auto simp: ancestors_def)

lemma ancestors_model_path:
  assumes "filepath \<noteq> []"
  shows "filepath \<in> set (ancestors (model_path filepath filename suffix))"
proof -
  let ?p = "model_path filepath filename suffix"
  have i: "length filepath < length ?p" by (simp add: model_path_def)
  have c: "?p ! length filepath = CHR ''/''" by (simp add: model_path_def nth_append)
  have t: "take (length filepath) ?p = filepath" by (simp add: model_path_def)
  have "length filepath \<in> set (filter (\<lambda>i. ?p ! i = CHR ''/'') [0..<length ?p])"
    using i c by simp
  then have "take (length filepath) ?p
      \<in> set (map (\<lambda>i. take i ?p) (filter (\<lambda>i. ?p ! i = CHR ''/'') [0..<length ?p]))"
    unfolding set_map by (rule imageI)
  then show ?thesis using assms unfolding ancestors_def t by simp
qed

lemma ensure_dir_files: "fs_files (fst (ensure_dir fs filepath)) = fs_files fs"
  by (simp add: ensure_dir_def os_makedirs_def)

lemma torch_save_effect:
  "fs_dirs (fst (torch_save fs obj path)) = fs_dirs fs"
  "fs_files (fst (torch_save fs obj path)) =
     (if snd (torch_save fs obj path) = None then (fs_files fs)(path \<mapsto> obj) else fs_files fs)"
  by (simp_all add: torch_save_def)

lemma torch_save_ok:
  "parent_dir path \<in> fs_dirs fs \<Longrightarrow> path \<notin> fs_dirs fs \<Longrightarrow>
   torch_save fs obj path = (fs\<lparr>fs_files := (fs_files fs)(path \<mapsto> obj)\<rparr>, None)"
  by (simp add: torch_save_def)

lemma ensure_dir_missing:
  assumes "filepath \<noteq> []" "\<not> os_path_exists fs filepath"
    "\<forall>a\<in>set (ancestors filepath). fs_files fs a = None"
  shows "ensure_dir fs filepath =
     (fs\<lparr>fs_dirs := fs_dirs fs \<union> set (ancestors filepath) \<union> {filepath}\<rparr>, None)"
  using assms by (simp add: ensure_dir_def os_makedirs_def)

lemma target_not_dir:
  assumes ok: "fs_ok fs" and ne: "filepath \<noteq> []" and miss: "\<not> os_path_exists fs filepath"
  shows "model_path filepath filename suffix
           \<notin> fs_dirs fs \<union> set (ancestors filepath) \<union> {filepath}"
proof -
  let ?p = "model_path filepath filename suffix"
  have longer: "length filepath < length ?p" by (simp add: model_path_def)
  have "?p \<notin> fs_dirs fs"
  proof
    assume "?p \<in> fs_dirs fs"
    with ok have "\<forall>a\<in>set (ancestors ?p). a \<in> fs_dirs fs" unfolding fs_ok_def by blast
    with ancestors_model_path[OF ne] have "filepath \<in> fs_dirs fs" by blast
    with miss ne show False by (simp add: os_path_exists_def)
  qed
  moreover have "?p \<notin> set (ancestors filepath)"
    using ancestors_shorter[of ?p filepath] longer by auto
  moreover have "?p \<noteq> filepath" using longer by auto
  ultimately show ?thesis by simp
qed

lemma save_one_ok:
  assumes "fs_ok fs" "filepath \<noteq> []" "\<not> os_path_exists fs filepath"
    "\<forall>a\<in>set (ancestors filepath). fs_files fs a = None"
    "CHR ''/'' \<notin> set filename" "CHR ''/'' \<notin> set suffix"
    "fs_dirs fs1 = fs_dirs fs \<union> set (ancestors filepath) \<union> {filepath}"
  shows "torch_save fs1 obj (model_path filepath filename suffix) =
     (fs1\<lparr>fs_files := (fs_files fs1)(model_path filepath filename suffix \<mapsto> obj)\<rparr>, None)"
proof (rule torch_save_ok)
  show "parent_dir (model_path filepath filename suffix) \<in> fs_dirs fs1"
    using parent_dir_model_path[OF assms(5,6)] assms(7) by simp
  show "model_path filepath filename suffix \<notin> fs_dirs fs1"
    using target_not_dir[OF assms(1-3)] assms(7) by simp
qed



lemma SAC_save_models_ok:
  assumes "fs_ok fs" "filepath \<noteq> []" "\<not> os_path_exists fs filepath"
    "\<forall>a\<in>set (ancestors filepath). fs_files fs a = None" "CHR ''/'' \<notin> set filename"
  shows "SAC_save_models s fs filename filepath =
     (fs\<lparr>fs_dirs := fs_dirs fs \<union> set (ancestors filepath) \<union> {filepath},
         fs_files := (fs_files fs)(model_path filepath filename ''_actor.pht'' \<mapsto> sac_actor_net s,
                       model_path filepath filename ''_critic.pht'' \<mapsto> sac_critic_net s)\<rparr>, None)"
  using save_one_ok[OF assms, of "''_actor.pht''"
      "fs\<lparr>fs_dirs := fs_dirs fs \<union> set (ancestors filepath) \<union> {filepath}\<rparr>" "sac_actor_net s"]
    save_one_ok[OF assms, of "''_critic.pht''"
      "fs\<lparr>fs_dirs := fs_dirs fs \<union> set (ancestors filepath) \<union> {filepath},
          fs_files := (fs_files fs)(model_path filepath filename ''_actor.pht'' \<mapsto> sac_actor_net s)\<rparr>"
      "sac_critic_net s"]
  by (simp add: SAC_save_models_def ensure_dir_missing[OF assms(2-4)])







lemma copy_matching_same:
  "map length loaded = map length current \<Longrightarrow> copy_matching current loaded = loaded"
  by (induction current loaded rule: copy_matching.induct) auto

lemma SAC_load_models_frame:
  "sac_target_critic_net (fst (SAC_load_models s fs filename filepath)) = sac_target_critic_net s"
  "sac_log_alpha (fst (SAC_load_models s fs filename filepath)) = sac_log_alpha s"
  by (simp_all add: SAC_load_models_def Let_def split: sum.splits prod.splits option.splits)

lemma SAC_load_models_ok:
  assumes "fs_files fs (model_path filepath filename ''_actor.pht'') = Some a"
    and "fs_files fs (model_path filepath filename ''_critic.pht'') = Some c"
    and "map length a = map length (sac_actor_net s)"
    and "map length c = map length (sac_critic_net s)"
  shows "SAC_load_models s fs filename filepath = (s\<lparr>sac_actor_net := a, sac_critic_net := c\<rparr>, None)"
  using assms
  by (simp add: SAC_load_models_def torch_load_def load_state_dict_def Let_def copy_matching_same)

lemma SAC_save_models_files:
  "fs_files (fst (SAC_save_models s fs filename filepath)) p =
     fs_files fs p \<or>
   p = model_path filepath filename ''_actor.pht'' \<and>
     fs_files (fst (SAC_save_models s fs filename filepath)) p = Some (sac_actor_net s) \<or>
   p = model_path filepath filename ''_critic.pht'' \<and>
     fs_files (fst (SAC_save_models s fs filename filepath)) p = Some (sac_critic_net s)"
proof -
  obtain fs0 r0 where e: "ensure_dir fs filepath = (fs0, r0)" by (cases "ensure_dir fs filepath")
  have f0: "fs_files fs0 = fs_files fs" using ensure_dir_files[of fs filepath] e by simp
  obtain fs1 r1 where s1: "torch_save fs0 (sac_actor_net s) (model_path filepath filename ''_actor.pht'') = (fs1, r1)"
    by (cases "torch_save fs0 (sac_actor_net s) (model_path filepath filename ''_actor.pht'')")
  obtain fs2 r2 where s2: "torch_save fs1 (sac_critic_net s) (model_path filepath filename ''_critic.pht'') = (fs2, r2)"
    by (cases "torch_save fs1 (sac_critic_net s) (model_path filepath filename ''_critic.pht'')")
  have f1: "fs_files fs1 =
      (if r1 = None then (fs_files fs0)(model_path filepath filename ''_actor.pht'' \<mapsto> sac_actor_net s)
       else fs_files fs0)"
    using torch_save_effect(2)[of fs0 "sac_actor_net s" "model_path filepath filename ''_actor.pht''"] s1
    by simp
  have f2: "fs_files fs2 =
      (if r2 = None then (fs_files fs1)(model_path filepath filename ''_critic.pht'' \<mapsto> sac_critic_net s)
       else fs_files fs1)"
    using torch_save_effect(2)[of fs1 "sac_critic_net s" "model_path filepath filename ''_critic.pht''"] s2
    by simp
  have res: "fst (SAC_save_models s fs filename filepath) =
      (if r0 \<noteq> None then fs0 else if r1 \<noteq> None then fs1 else fs2)"
    using e s1 s2 by (cases r0; cases r1) (simp_all add: SAC_save_models_def)
  show ?thesis unfolding res using f0 f1 f2 by auto
qed

lemma SAC_save_models_saved:
  assumes "snd (SAC_save_models s fs filename filepath) = None"
  shows "fs_files (fst (SAC_save_models s fs filename filepath))
           (model_path filepath filename ''_actor.pht'') = Some (sac_actor_net s)"
    and "fs_files (fst (SAC_save_models s fs filename filepath))
           (model_path filepath filename ''_critic.pht'') = Some (sac_critic_net s)"
proof -
  obtain fs0 r0 where e: "ensure_dir fs filepath = (fs0, r0)" by (cases "ensure_dir fs filepath")
  obtain fs1 r1 where s1: "torch_save fs0 (sac_actor_net s) (model_path filepath filename ''_actor.pht'') = (fs1, r1)"
    by (cases "torch_save fs0 (sac_actor_net s) (model_path filepath filename ''_actor.pht'')")
  obtain fs2 r2 where s2: "torch_save fs1 (sac_critic_net s) (model_path filepath filename ''_critic.pht'') = (fs2, r2)"
    by (cases "torch_save fs1 (sac_critic_net s) (model_path filepath filename ''_critic.pht'')")
  from assms e s1 s2 have ok: "r0 = None" "r1 = None" "r2 = None"
    and res: "fst (SAC_save_models s fs filename filepath) = fs2"
    by (cases r0; cases r1; simp add: SAC_save_models_def)+
  have f1: "fs_files fs1 = (fs_files fs0)(model_path filepath filename ''_actor.pht'' \<mapsto> sac_actor_net s)"
    using torch_save_effect(2)[of fs0 "sac_actor_net s" "model_path filepath filename ''_actor.pht''"] s1 ok
    by simp
  have f2: "fs_files fs2 = (fs_files fs1)(model_path filepath filename ''_critic.pht'' \<mapsto> sac_critic_net s)"
    using torch_save_effect(2)[of fs1 "sac_critic_net s" "model_path filepath filename ''_critic.pht''"] s2 ok
    by simp
  show "fs_files (fst (SAC_save_models s fs filename filepath))
           (model_path filepath filename ''_actor.pht'') = Some (sac_actor_net s)"
    unfolding res f2 f1 by simp
  show "fs_files (fst (SAC_save_models s fs filename filepath))
           (model_path filepath filename ''_critic.pht'') = Some (sac_critic_net s)"
    unfolding res f2 by simp
qed

lemma fs_ok_empty: "fs_ok empty_fs"
  by (simp add: fs_ok_def empty_fs_def)

section \<open>Claims about the agents\<close>

text \<open>
  Claim C5. A call of \<open>DQN.train_policy\<close> that does not raise increments the
  learning-step counter by exactly one and replaces the online network by the result of
  the optimiser step on the sampled batch. If the new counter is a multiple of
  \<open>target_update_freq\<close> the target network becomes a copy of the just-updated online
  network; otherwise the target network is unchanged. So the target network changes only
  in a call that does not raise and whose new counter is such a multiple. A call that
  raises adds at most one to the counter; in particular a batch whose columns cannot be
  reshaped to \<open>batch_size\<close> rows raises \<open>RuntimeError\<close> and leaves the agent as it was.
  Selecting an action and loading a model change neither the target network nor the
  counter, and \<open>g\<close> successive calls (the loop's update multiplicity) that do not raise
  advance the counter by \<open>g\<close>: the counter counts calls, whatever the environment step.
\<close>

theorem dqn_hard_sync:
  "(snd (DQN_train_policy forward adam sample s mem b) = None \<longrightarrow>
      dqn_learn_counter (fst (DQN_train_policy forward adam sample s mem b)) = dqn_learn_counter s + 1 \<and>
      (\<exists>ex opt. sample mem b = Inr ex \<and>
           (has_rows (actions ex) b \<and> has_rows (rewards ex) b \<and> has_rows (dones ex) b) \<and>
           adam (dqn_optimiser s) (dqn_loss forward s ex) (dqn_net s) =
             Inr (dqn_net (fst (DQN_train_policy forward adam sample s mem b)), opt)) \<and>
      (dqn_target_update_freq s dvd dqn_learn_counter (fst (DQN_train_policy forward adam sample s mem b)) \<longrightarrow>
         dqn_target_net (fst (DQN_train_policy forward adam sample s mem b)) =
           dqn_net (fst (DQN_train_policy forward adam sample s mem b))) \<and>
      (\<not> dqn_target_update_freq s dvd dqn_learn_counter (fst (DQN_train_policy forward adam sample s mem b)) \<longrightarrow>
         dqn_target_net (fst (DQN_train_policy forward adam sample s mem b)) = dqn_target_net s)) \<and>
   (dqn_target_net (fst (DQN_train_policy forward adam sample s mem b)) \<noteq> dqn_target_net s \<longrightarrow>
      snd (DQN_train_policy forward adam sample s mem b) = None \<and>
      dqn_target_update_freq s dvd dqn_learn_counter (fst (DQN_train_policy forward adam sample s mem b)) \<and>
      dqn_target_net (fst (DQN_train_policy forward adam sample s mem b)) =
        dqn_net (fst (DQN_train_policy forward adam sample s mem b))) \<and>
   (dqn_learn_counter (fst (DQN_train_policy forward adam sample s mem b)) = dqn_learn_counter s \<or>
    dqn_learn_counter (fst (DQN_train_policy forward adam sample s mem b)) = dqn_learn_counter s + 1) \<and>
   (sample mem b = Inr ex0 \<and>
    \<not> (has_rows (actions ex0) b \<and> has_rows (rewards ex0) b \<and> has_rows (dones ex0) b) \<longrightarrow>
      DQN_train_policy forward adam sample s mem b = (s, Some RuntimeError)) \<and>
   dqn_target_net (snd (DQN_select_action_from_policy forward s st)) = dqn_target_net s \<and>
   dqn_learn_counter (snd (DQN_select_action_from_policy forward s st)) = dqn_learn_counter s \<and>
   dqn_target_net (fst (DQN_load_models s fs filename filepath)) = dqn_target_net s \<and>
   dqn_learn_counter (fst (DQN_load_models s fs filename filepath)) = dqn_learn_counter s \<and>
   (snd (DQN_train_repeat forward adam sample g s mem b) = None \<longrightarrow>
      dqn_learn_counter (fst (DQN_train_repeat forward adam sample g s mem b)) =
        dqn_learn_counter s + int g)"
proof -
  have a: "snd (DQN_train_policy forward adam sample s mem b) = None \<longrightarrow>
      dqn_learn_counter (fst (DQN_train_policy forward adam sample s mem b)) = dqn_learn_counter s + 1 \<and>
      (\<exists>ex opt. sample mem b = Inr ex \<and>
           (has_rows (actions ex) b \<and> has_rows (rewards ex) b \<and> has_rows (dones ex) b) \<and>
           adam (dqn_optimiser s) (dqn_loss forward s ex) (dqn_net s) =
             Inr (dqn_net (fst (DQN_train_policy forward adam sample s mem b)), opt)) \<and>
      (dqn_target_update_freq s dvd dqn_learn_counter (fst (DQN_train_policy forward adam sample s mem b)) \<longrightarrow>
         dqn_target_net (fst (DQN_train_policy forward adam sample s mem b)) =
           dqn_net (fst (DQN_train_policy forward adam sample s mem b))) \<and>
      (\<not> dqn_target_update_freq s dvd dqn_learn_counter (fst (DQN_train_policy forward adam sample s mem b)) \<longrightarrow>
         dqn_target_net (fst (DQN_train_policy forward adam sample s mem b)) = dqn_target_net s)"
  proof
    assume ok: "snd (DQN_train_policy forward adam sample s mem b) = None"
    from DQN_train_policy_ok(1)[OF ok] DQN_train_policy_ok(3)[OF ok]
      DQN_train_policy_ok(4)[OF ok] DQN_train_policy_ok(5)[OF ok]
    show "dqn_learn_counter (fst (DQN_train_policy forward adam sample s mem b)) = dqn_learn_counter s + 1 \<and>
      (\<exists>ex opt. sample mem b = Inr ex \<and>
           (has_rows (actions ex) b \<and> has_rows (rewards ex) b \<and> has_rows (dones ex) b) \<and>
           adam (dqn_optimiser s) (dqn_loss forward s ex) (dqn_net s) =
             Inr (dqn_net (fst (DQN_train_policy forward adam sample s mem b)), opt)) \<and>
      (dqn_target_update_freq s dvd dqn_learn_counter (fst (DQN_train_policy forward adam sample s mem b)) \<longrightarrow>
         dqn_target_net (fst (DQN_train_policy forward adam sample s mem b)) =
           dqn_net (fst (DQN_train_policy forward adam sample s mem b))) \<and>
      (\<not> dqn_target_update_freq s dvd dqn_learn_counter (fst (DQN_train_policy forward adam sample s mem b)) \<longrightarrow>
         dqn_target_net (fst (DQN_train_policy forward adam sample s mem b)) = dqn_target_net s)"
      by (intro conjI)
  qed
  have r: "sample mem b = Inr ex0 \<and>
    \<not> (has_rows (actions ex0) b \<and> has_rows (rewards ex0) b \<and> has_rows (dones ex0) b) \<longrightarrow>
      DQN_train_policy forward adam sample s mem b = (s, Some RuntimeError)"
    using DQN_train_policy_reshape[of sample mem b ex0 forward adam s] by (intro impI) (elim conjE)
  have c: "dqn_target_net (snd (DQN_select_action_from_policy forward s st)) = dqn_target_net s"
    "dqn_learn_counter (snd (DQN_select_action_from_policy forward s st)) = dqn_learn_counter s"
    by (simp_all add: DQN_select_action_from_policy_def)
  have d: "dqn_target_net (fst (DQN_load_models s fs filename filepath)) = dqn_target_net s"
    "dqn_learn_counter (fst (DQN_load_models s fs filename filepath)) = dqn_learn_counter s"
    by (simp_all add: DQN_load_models_def split: sum.splits prod.splits option.splits)
  have e: "snd (DQN_train_repeat forward adam sample g s mem b) = None \<longrightarrow>
      dqn_learn_counter (fst (DQN_train_repeat forward adam sample g s mem b)) = dqn_learn_counter s + int g"
    by (simp add: DQN_train_repeat_counter)
  from a DQN_train_policy_any[of forward adam sample s mem b] r c d e show ?thesis
    by (intro conjI)
qed

text \<open>
  A second learning step with \<open>target_update_freq = 2\<close> on a batch of two rows: the
  target is overwritten. The same batch with \<open>batch_size = 32\<close> cannot be reshaped.
\<close>

theorem dqn_hard_sync_witness:
  "snd (DQN_train_policy stub_forward stub_adam stub_sample_dqn dqn_agent () 2) = None \<and>
   dqn_learn_counter (fst (DQN_train_policy stub_forward stub_adam stub_sample_dqn dqn_agent () 2)) =
     dqn_learn_counter dqn_agent + 1 \<and>
   dqn_target_update_freq dqn_agent dvd
     dqn_learn_counter (fst (DQN_train_policy stub_forward stub_adam stub_sample_dqn dqn_agent () 2)) \<and>
   dqn_target_net (fst (DQN_train_policy stub_forward stub_adam stub_sample_dqn dqn_agent () 2)) =
     dqn_net (fst (DQN_train_policy stub_forward stub_adam stub_sample_dqn dqn_agent () 2)) \<and>
   dqn_net (fst (DQN_train_policy stub_forward stub_adam stub_sample_dqn dqn_agent () 2)) = [[2]] \<and>
   dqn_target_net dqn_agent = [[0]] \<and>
   snd (DQN_train_repeat stub_forward stub_adam stub_sample_dqn 3 dqn_agent () 2) = None \<and>
   dqn_learn_counter (fst (DQN_train_repeat stub_forward stub_adam stub_sample_dqn 3 dqn_agent () 2)) =
     dqn_learn_counter dqn_agent + int 3 \<and>
   DQN_train_policy stub_forward stub_adam stub_sample_dqn dqn_agent () 32 =
     (dqn_agent, Some RuntimeError)"
proof -
  note ev = DQN_train_policy_def Let_def stub_adam_def stub_sample_dqn_def py_mod_is_zero_def
    dqn_agent_def DQN_init_def has_rows_def
  have ok: "snd (DQN_train_policy stub_forward stub_adam stub_sample_dqn dqn_agent () 2) = None"
    by (simp add: ev)
  have n: "dqn_net (fst (DQN_train_policy stub_forward stub_adam stub_sample_dqn dqn_agent () 2)) = [[2]]"
    by (simp add: ev)
  have t: "dqn_target_net dqn_agent = [[0]]"
    by (simp add: dqn_agent_def DQN_init_def)
  have rep: "snd (DQN_train_repeat stub_forward stub_adam stub_sample_dqn 3 dqn_agent () 2) = None"
    by (simp add: ev eval_nat_numeral)
  have smp: "stub_sample_dqn () 32 =
      Inr \<lparr>states = [[0], [0]], actions = [0, 1], rewards = [1, 2], next_states = [[0], [0]],
           dones = [0, 1]\<rparr>"
    by (simp add: stub_sample_dqn_def)
  have bad: "\<not> (has_rows (actions \<lparr>states = [[0], [0]], actions = [0, 1 :: nat], rewards = [1, 2],
                 next_states = [[0], [0]], dones = [0, 1]\<rparr>) 32 \<and>
               has_rows (rewards \<lparr>states = [[0], [0]], actions = [0, 1 :: nat], rewards = [1, 2],
                 next_states = [[0], [0]], dones = [0, 1]\<rparr>) 32 \<and>
               has_rows (dones \<lparr>states = [[0], [0]], actions = [0, 1 :: nat], rewards = [1, 2],
                 next_states = [[0], [0]], dones = [0, 1]\<rparr>) 32)"
    by (simp add: has_rows_def)
  note th = dqn_hard_sync[where forward = stub_forward and adam = stub_adam
      and sample = stub_sample_dqn and s = dqn_agent and mem = "()" and b = 2 and g = 3]
  from th ok have
    c: "dqn_learn_counter (fst (DQN_train_policy stub_forward stub_adam stub_sample_dqn dqn_agent () 2)) =
       dqn_learn_counter dqn_agent + 1"
    by blast
  have d: "dqn_target_update_freq dqn_agent dvd
     dqn_learn_counter (fst (DQN_train_policy stub_forward stub_adam stub_sample_dqn dqn_agent () 2))"
    unfolding c by (simp add: dqn_agent_def DQN_init_def)
  from th ok d have
    sy: "dqn_target_net (fst (DQN_train_policy stub_forward stub_adam stub_sample_dqn dqn_agent () 2)) =
       dqn_net (fst (DQN_train_policy stub_forward stub_adam stub_sample_dqn dqn_agent () 2))"
    by blast
  from th rep have
    g: "dqn_learn_counter (fst (DQN_train_repeat stub_forward stub_adam stub_sample_dqn 3 dqn_agent () 2)) =
       dqn_learn_counter dqn_agent + int 3"
    by blast
  note th2 = dqn_hard_sync[where forward = stub_forward and adam = stub_adam
      and sample = stub_sample_dqn and s = dqn_agent and mem = "()" and b = 32
      and ?ex0.0 = "\<lparr>states = [[0], [0]], actions = [0, 1], rewards = [1, 2],
                      next_states = [[0], [0]], dones = [0, 1]\<rparr>"]
  from th2 smp bad have
    re: "DQN_train_policy stub_forward stub_adam stub_sample_dqn dqn_agent () 32 =
      (dqn_agent, Some RuntimeError)"
    by blast
  from ok c d sy n t rep g re show ?thesis by (intro conjI)
qed

text \<open>
  Claim C6. For a source and a target of the same shapes, the soft update makes every
  entry of every target parameter \<open>tau * source + (1 - tau) * target\<close>; with \<open>tau = 1\<close>
  the result is the source, with \<open>tau = 0\<close> it is the target. A call of
  \<open>DDPG.train_policy\<close> that does not raise applies it to the critic target and to the
  actor target, a call of \<open>SAC.train_policy\<close> (with its \<open>policy_update_freq\<close> of 1)
  that does not raise applies it to the critic target, each time from the network just
  updated. A call that raises (at sampling, at the reshape of the batch or in an
  optimiser step) leaves the targets as they were.
\<close>

theorem soft_target_sync:
  "(map length source = map length target \<longrightarrow>
      (\<forall>i<length target. \<forall>j<length (target ! i).
          soft_update tau source target ! i ! j =
            tau * source ! i ! j + (1 - tau) * target ! i ! j) \<and>
      map length (soft_update tau source target) = map length target \<and>
      soft_update 1 source target = source \<and>
      soft_update 0 source target = target) \<and>
   (snd (DDPG_train_policy dm adam dsample ds mem b) = None \<longrightarrow>
      ddpg_target_critic_net (fst (DDPG_train_policy dm adam dsample ds mem b)) =
        soft_update (ddpg_tau ds) (ddpg_critic_net (fst (DDPG_train_policy dm adam dsample ds mem b)))
          (ddpg_target_critic_net ds) \<and>
      ddpg_target_actor_net (fst (DDPG_train_policy dm adam dsample ds mem b)) =
        soft_update (ddpg_tau ds) (ddpg_actor_net (fst (DDPG_train_policy dm adam dsample ds mem b)))
          (ddpg_target_actor_net ds)) \<and>
   (snd (DDPG_train_policy dm adam dsample ds mem b) \<noteq> None \<longrightarrow>
      ddpg_target_critic_net (fst (DDPG_train_policy dm adam dsample ds mem b)) =
        ddpg_target_critic_net ds \<and>
      ddpg_target_actor_net (fst (DDPG_train_policy dm adam dsample ds mem b)) =
        ddpg_target_actor_net ds) \<and>
   (sac_policy_update_freq ss = 1 \<and> snd (SAC_train_policy sm ssample ss mem b nc na) = None \<longrightarrow>
      sac_target_critic_net (fst (SAC_train_policy sm ssample ss mem b nc na)) =
        soft_update (sac_tau ss) (sac_critic_net (fst (SAC_train_policy sm ssample ss mem b nc na)))
          (sac_target_critic_net ss)) \<and>
   (snd (SAC_train_policy sm ssample ss mem b nc na) \<noteq> None \<longrightarrow>
      sac_target_critic_net (fst (SAC_train_policy sm ssample ss mem b nc na)) =
        sac_target_critic_net ss)"
proof -
  have shape: "map length (soft_update tau source target) = map length target"
    if eq: "map length source = map length target"
  proof (rule nth_equalityI)
    show "length (map length (soft_update tau source target)) = length (map length target)"
      by (simp add: soft_update_length)
    fix i assume "i < length (map length (soft_update tau source target))"
    then have i: "i < length target" by (simp add: soft_update_length)
    from eq have ls: "length source = length target" by (rule map_eq_imp_length_eq)
    have "map length source ! i = map length target ! i" using eq by simp
    then have ss: "length (source ! i) = length (target ! i)" using i ls by simp
    show "map length (soft_update tau source target) ! i = map length target ! i"
      using soft_update_nth[of i source target tau] i ls ss
      by (simp add: soft_update_length tadd_def tmul_def)
  qed
  have a: "map length source = map length target \<longrightarrow>
      (\<forall>i<length target. \<forall>j<length (target ! i).
          soft_update tau source target ! i ! j =
            tau * source ! i ! j + (1 - tau) * target ! i ! j) \<and>
      map length (soft_update tau source target) = map length target \<and>
      soft_update 1 source target = source \<and>
      soft_update 0 source target = target"
    using soft_update_entry soft_update_tau_one soft_update_tau_zero shape by blast
  from a DDPG_train_policy_targets[where m = dm and adam = adam and sample = dsample and s = ds
      and mem = mem and b = b]
    SAC_train_policy_target[where s = ss and m = sm and sample = ssample and mem = mem and b = b
      and nc = nc and na = na]
  show ?thesis by (intro conjI)
qed

text \<open>
  Two parameters of shapes 2 and 1, \<open>tau = 1/2\<close>; a freshly constructed SAC agent and a
  DDPG agent on a batch of two rows; and the DDPG agent asked for 32 rows.
\<close>

theorem soft_target_sync_witness:
  "map length [[1, 2], [3 :: real]] = map length [[5, 6], [7 :: real]] \<and>
   soft_update (1 / 2) [[1, 2], [3]] [[5, 6], [7]] ! 0 ! 1 = 1 / 2 * 2 + (1 - 1 / 2) * 6 \<and>
   soft_update (1 / 2) [[1, 2], [3]] [[5, 6], [7]] = [[3, 4], [5]] \<and>
   soft_update 1 [[1, 2], [3]] [[5, 6], [7]] = [[1, 2], [3]] \<and>
   soft_update 0 [[1, 2], [3]] [[5, 6], [7]] = [[5, 6], [7]] \<and>
   sac_policy_update_freq sac_agent = 1 \<and>
   snd (SAC_train_policy stub_sac stub_sample sac_agent () 2 [0, 0] [0, 0]) = None \<and>
   sac_target_critic_net (fst (SAC_train_policy stub_sac stub_sample sac_agent () 2 [0, 0] [0, 0])) =
     soft_update (sac_tau sac_agent)
       (sac_critic_net (fst (SAC_train_policy stub_sac stub_sample sac_agent () 2 [0, 0] [0, 0])))
       (sac_target_critic_net sac_agent) \<and>
   sac_critic_net (fst (SAC_train_policy stub_sac stub_sample sac_agent () 2 [0, 0] [0, 0])) = [[2]] \<and>
   snd (DDPG_train_policy stub_ddpg stub_adam stub_sample ddpg_agent () 2) = None \<and>
   ddpg_target_actor_net (fst (DDPG_train_policy stub_ddpg stub_adam stub_sample ddpg_agent () 2)) =
     soft_update (ddpg_tau ddpg_agent)
       (ddpg_actor_net (fst (DDPG_train_policy stub_ddpg stub_adam stub_sample ddpg_agent () 2)))
       (ddpg_target_actor_net ddpg_agent) \<and>
   snd (DDPG_train_policy stub_ddpg stub_adam stub_sample ddpg_agent () 32) = Some RuntimeError \<and>
   ddpg_target_actor_net (fst (DDPG_train_policy stub_ddpg stub_adam stub_sample ddpg_agent () 32)) =
     ddpg_target_actor_net ddpg_agent"
proof -
  have shape: "map length [[1, 2], [3 :: real]] = map length [[5, 6], [7 :: real]]" by simp
  have freq: "sac_policy_update_freq sac_agent = 1" by (simp add: sac_agent_def SAC_init_def)
  have val: "soft_update (1 / 2) [[1, 2], [3]] [[5, 6], [7]] = [[3, 4], [5]]"
    by (simp add: soft_update_def tadd_def tmul_def)
  have idx: "(0::nat) < length [[5, 6], [7 :: real]]" "(1::nat) < length ([[5, 6], [7 :: real]] ! 0)"
    by simp_all
  have sok: "snd (SAC_train_policy stub_sac stub_sample sac_agent () 2 [0, 0] [0, 0]) = None"
    by (simp add: sac_eval)
  have scr: "sac_critic_net (fst (SAC_train_policy stub_sac stub_sample sac_agent () 2 [0, 0] [0, 0])) = [[2]]"
    by (simp add: sac_eval)
  have dok: "snd (DDPG_train_policy stub_ddpg stub_adam stub_sample ddpg_agent () 2) = None"
    by (simp add: DDPG_train_policy_def DDPG_update_critic_def DDPG_update_actor_def Let_def
          stub_adam_def stub_sample_def stub_batch_def has_rows_def)
  have dbad: "snd (DDPG_train_policy stub_ddpg stub_adam stub_sample ddpg_agent () 32) = Some RuntimeError"
    by (simp add: DDPG_train_policy_def stub_sample_def stub_batch_def has_rows_def)
  have dne: "snd (DDPG_train_policy stub_ddpg stub_adam stub_sample ddpg_agent () 32) \<noteq> None"
    using dbad by simp
  note th = soft_target_sync[where source = "[[1, 2], [3]]" and target = "[[5, 6], [7]]"
      and tau = "1 / 2" and dm = stub_ddpg and adam = stub_adam and dsample = stub_sample
      and ds = ddpg_agent and mem = "()" and b = 2 and ss = sac_agent and sm = stub_sac
      and ssample = stub_sample and nc = "[0, 0]" and na = "[0, 0]"]
  note th32 = soft_target_sync[where source = "[[1, 2], [3]]" and target = "[[5, 6], [7]]"
      and tau = "1 / 2" and dm = stub_ddpg and adam = stub_adam and dsample = stub_sample
      and ds = ddpg_agent and mem = "()" and b = 32 and ss = sac_agent and sm = stub_sac
      and ssample = stub_sample and nc = "[0, 0]" and na = "[0, 0]"]
  from th shape have
    e: "\<forall>i<length [[5, 6], [7 :: real]]. \<forall>j<length ([[5, 6], [7 :: real]] ! i).
          soft_update (1 / 2) [[1, 2], [3]] [[5, 6], [7]] ! i ! j =
            1 / 2 * [[1, 2], [3]] ! i ! j + (1 - 1 / 2) * [[5, 6], [7]] ! i ! j"
    and one: "soft_update 1 [[1, 2], [3]] [[5, 6], [7 :: real]] = [[1, 2], [3]]"
    and zero: "soft_update 0 [[1, 2], [3 :: real]] [[5, 6], [7]] = [[5, 6], [7]]"
    by blast+
  from e idx have e01: "soft_update (1 / 2) [[1, 2], [3]] [[5, 6], [7]] ! 0 ! 1 =
      1 / 2 * [[1, 2], [3]] ! 0 ! 1 + (1 - 1 / 2) * [[5, 6], [7]] ! 0 ! 1"
    by blast
  then have e': "soft_update (1 / 2) [[1, 2], [3]] [[5, 6], [7]] ! 0 ! 1 = 1 / 2 * 2 + (1 - 1 / 2) * 6"
    by simp
  from th freq sok have
    sac: "sac_target_critic_net (fst (SAC_train_policy stub_sac stub_sample sac_agent () 2 [0, 0] [0, 0])) =
     soft_update (sac_tau sac_agent)
       (sac_critic_net (fst (SAC_train_policy stub_sac stub_sample sac_agent () 2 [0, 0] [0, 0])))
       (sac_target_critic_net sac_agent)"
    by blast
  from th dok have
    dd: "ddpg_target_actor_net (fst (DDPG_train_policy stub_ddpg stub_adam stub_sample ddpg_agent () 2)) =
     soft_update (ddpg_tau ddpg_agent)
       (ddpg_actor_net (fst (DDPG_train_policy stub_ddpg stub_adam stub_sample ddpg_agent () 2)))
       (ddpg_target_actor_net ddpg_agent)"
    by blast
  from th32 dne have
    dk: "ddpg_target_actor_net (fst (DDPG_train_policy stub_ddpg stub_adam stub_sample ddpg_agent () 32)) =
     ddpg_target_actor_net ddpg_agent"
    by blast
  from shape e' val one zero freq sok sac scr dok dd dbad dk show ?thesis by (intro conjI)
qed

text \<open>
  Claim C7. With the actions and log-probabilities sampled by the agent's own actor at
  the next states, and the two values of the target critic there, every entry of the
  bootstrap target of \<open>_update_critic\<close> is the specification's formula; the critic
  loss is the sum of the two mean-squared errors against that one target; and
  \<open>_update_critic\<close> is one optimiser step on this sum: if the step raises the agent is
  unchanged, otherwise the critic is replaced by its result, and neither the actor nor
  the target critic is touched. In a call of \<open>train_policy\<close> that does not raise, the
  batch was sampled and reshaped and the critic comes from this step on that batch.
\<close>

theorem sac_critic_update:
  assumes "sac_actor m (sac_actor_net s) (next_states b) noise = (next_actions, next_log_pi, mu)"
    and "sac_critic m (sac_target_critic_net s) (next_states b) next_actions = (q1t, q2t)"
    and "length (rewards b) = n" "length (dones b) = n"
    and "length q1t = n" "length q2t = n" "length next_log_pi = n"
  shows "length (sac_q_target m s b noise) = n \<and>
    (\<forall>i<n. sac_q_target m s b noise ! i =
       spec_sac_target (rewards b ! i) (sac_reward_scale s) (sac_gamma s) (dones b ! i)
         (q1t ! i) (q2t ! i) (exp (sac_log_alpha s)) (next_log_pi ! i)) \<and>
    sac_critic_loss_total m b (sac_q_target m s b noise) p =
       mse_loss (fst (sac_critic m p (states b) (actions b))) (sac_q_target m s b noise) +
       mse_loss (snd (sac_critic m p (states b) (actions b))) (sac_q_target m s b noise) \<and>
    SAC_update_critic m s b noise =
       (case sac_adam m (sac_critic_net_optimiser s)
               (sac_critic_loss_total m b (sac_q_target m s b noise)) (sac_critic_net s) of
          Inl e \<Rightarrow> (s, Some e)
        | Inr (p', o') \<Rightarrow> (s\<lparr>sac_critic_net := p', sac_critic_net_optimiser := o'\<rparr>, None)) \<and>
    sac_actor_net (fst (SAC_update_critic m s b noise)) = sac_actor_net s \<and>
    sac_target_critic_net (fst (SAC_update_critic m s b noise)) = sac_target_critic_net s \<and>
    (snd (SAC_train_policy m sample s mem bs noise na) = None \<longrightarrow>
       (\<exists>ex o'. sample mem bs = Inr ex \<and>
           (has_rows (rewards ex) bs \<and> has_rows (dones ex) bs) \<and>
           sac_adam m (sac_critic_net_optimiser s)
             (sac_critic_loss_total m ex (sac_q_target m s ex noise)) (sac_critic_net s) =
           Inr (sac_critic_net (fst (SAC_train_policy m sample s mem bs noise na)), o')))"
proof -
  have a: "\<forall>i<n. sac_q_target m s b noise ! i =
       spec_sac_target (rewards b ! i) (sac_reward_scale s) (sac_gamma s) (dones b ! i)
         (q1t ! i) (q2t ! i) (exp (sac_log_alpha s)) (next_log_pi ! i)"
    using sac_q_target_sample[OF assms] by blast
  have l: "sac_critic_loss_total m b (sac_q_target m s b noise) p =
       mse_loss (fst (sac_critic m p (states b) (actions b))) (sac_q_target m s b noise) +
       mse_loss (snd (sac_critic m p (states b) (actions b))) (sac_q_target m s b noise)"
    by (simp add: sac_critic_loss_total_def Let_def split: prod.splits)
  have t: "snd (SAC_train_policy m sample s mem bs noise na) = None \<longrightarrow>
       (\<exists>ex o'. sample mem bs = Inr ex \<and>
           (has_rows (rewards ex) bs \<and> has_rows (dones ex) bs) \<and>
           sac_adam m (sac_critic_net_optimiser s)
             (sac_critic_loss_total m ex (sac_q_target m s ex noise)) (sac_critic_net s) =
           Inr (sac_critic_net (fst (SAC_train_policy m sample s mem bs noise na)), o'))"
    using SAC_train_policy_critic[of m sample s mem bs noise na] by (intro impI)
  from sac_q_target_length[OF assms] a l SAC_update_critic_unfold[of m s b noise]
    SAC_update_critic_frame(2,3)[of m s b noise] t
  show ?thesis by (intro conjI)
qed

text \<open>
  A batch of two transitions, the second one terminal; with \<open>batch_size = 32\<close> the
  reshape raises after the counter was incremented.
\<close>

theorem sac_critic_update_witness:
  "sac_actor stub_sac (sac_actor_net sac_agent) (next_states stub_batch) [1 / 2, 1 / 4] =
     ([[0], [0]], [1 / 2, 1 / 4], [[0], [0]]) \<and>
   sac_critic stub_sac (sac_target_critic_net sac_agent) (next_states stub_batch) [[0], [0]] =
     ([3, 3], [2, 2]) \<and>
   length (rewards stub_batch) = 2 \<and> length (dones stub_batch) = 2 \<and>
   length (sac_q_target stub_sac sac_agent stub_batch [1 / 2, 1 / 4]) = 2 \<and>
   sac_q_target stub_sac sac_agent stub_batch [1 / 2, 1 / 4] ! 0 =
     spec_sac_target (rewards stub_batch ! 0) (sac_reward_scale sac_agent) (sac_gamma sac_agent)
       (dones stub_batch ! 0) ([3, 3] ! 0) ([2, 2] ! 0) (exp (sac_log_alpha sac_agent))
       ([1 / 2, 1 / 4] ! 0) \<and>
   sac_q_target stub_sac sac_agent stub_batch [1 / 2, 1 / 4] ! 0 = 1 + 99 / 100 * (2 - 1 / 2) \<and>
   sac_q_target stub_sac sac_agent stub_batch [1 / 2, 1 / 4] ! 1 = 2 \<and>
   snd (SAC_train_policy stub_sac stub_sample sac_agent () 2 [1 / 2, 1 / 4] [0, 0]) = None \<and>
   sac_critic_net (fst (SAC_train_policy stub_sac stub_sample sac_agent () 2 [1 / 2, 1 / 4] [0, 0])) =
     [[2]] \<and>
   SAC_train_policy stub_sac stub_sample sac_agent () 32 [1 / 2, 1 / 4] [0, 0] =
     (sac_agent\<lparr>sac_learn_counter := 1\<rparr>, Some RuntimeError)"
proof -
  have a: "sac_actor stub_sac (sac_actor_net sac_agent) (next_states stub_batch) [1 / 2, 1 / 4] =
     ([[0], [0]], [1 / 2, 1 / 4], [[0], [0]])"
    by (simp add: stub_sac_def stub_batch_def)
  have c: "sac_critic stub_sac (sac_target_critic_net sac_agent) (next_states stub_batch) [[0], [0]] =
     ([3, 3], [2, 2])"
    by (simp add: stub_sac_def stub_batch_def)
  have l: "length (rewards stub_batch) = 2" "length (dones stub_batch) = 2"
    "length [3, 3 :: real] = 2" "length [2, 2 :: real] = 2" "length [1 / 2, 1 / 4 :: real] = 2"
    by (simp_all add: stub_batch_def)
  have ok: "snd (SAC_train_policy stub_sac stub_sample sac_agent () 2 [1 / 2, 1 / 4] [0, 0]) = None"
    by (simp add: sac_eval)
  have bad: "SAC_train_policy stub_sac stub_sample sac_agent () 32 [1 / 2, 1 / 4] [0, 0] =
     (sac_agent\<lparr>sac_learn_counter := 1\<rparr>, Some RuntimeError)"
    by (simp add: SAC_train_policy_def Let_def stub_sample_def stub_batch_def has_rows_def
          sac_agent_def SAC_init_def)
  note th = sac_critic_update[OF a c l, where sample = stub_sample and mem = "()" and bs = 2
      and na = "[0, 0]" and p = "[]"]
  from th have len: "length (sac_q_target stub_sac sac_agent stub_batch [1 / 2, 1 / 4]) = 2"
    and all: "\<forall>i<2. sac_q_target stub_sac sac_agent stub_batch [1 / 2, 1 / 4] ! i =
       spec_sac_target (rewards stub_batch ! i) (sac_reward_scale sac_agent) (sac_gamma sac_agent)
         (dones stub_batch ! i) ([3, 3] ! i) ([2, 2] ! i) (exp (sac_log_alpha sac_agent))
         ([1 / 2, 1 / 4] ! i)"
    by blast+
  from th ok obtain ex o' where
    step: "stub_sample () 2 = Inr ex"
      "sac_adam stub_sac (sac_critic_net_optimiser sac_agent)
         (sac_critic_loss_total stub_sac ex (sac_q_target stub_sac sac_agent ex [1 / 2, 1 / 4]))
         (sac_critic_net sac_agent) =
       Inr (sac_critic_net (fst (SAC_train_policy stub_sac stub_sample sac_agent () 2 [1 / 2, 1 / 4] [0, 0])), o')"
    by blast
  from step(2) have net: "sac_critic_net (fst (SAC_train_policy stub_sac stub_sample sac_agent () 2 [1 / 2, 1 / 4] [0, 0])) = [[2]]"
    by (simp add: stub_sac_def stub_adam_def sac_agent_def SAC_init_def)
  from all have s0: "sac_q_target stub_sac sac_agent stub_batch [1 / 2, 1 / 4] ! 0 =
       spec_sac_target (rewards stub_batch ! 0) (sac_reward_scale sac_agent) (sac_gamma sac_agent)
         (dones stub_batch ! 0) ([3, 3] ! 0) ([2, 2] ! 0) (exp (sac_log_alpha sac_agent))
         ([1 / 2, 1 / 4] ! 0)"
    by simp
  from all have s1: "sac_q_target stub_sac sac_agent stub_batch [1 / 2, 1 / 4] ! 1 =
       spec_sac_target (rewards stub_batch ! 1) (sac_reward_scale sac_agent) (sac_gamma sac_agent)
         (dones stub_batch ! 1) ([3, 3] ! 1) ([2, 2] ! 1) (exp (sac_log_alpha sac_agent))
         ([1 / 2, 1 / 4] ! 1)"
    by simp
  have v0: "sac_q_target stub_sac sac_agent stub_batch [1 / 2, 1 / 4] ! 0 = 1 + 99 / 100 * (2 - 1 / 2)"
    unfolding s0 by (simp add: spec_sac_target_def stub_batch_def sac_agent_def SAC_init_def)
  have v1: "sac_q_target stub_sac sac_agent stub_batch [1 / 2, 1 / 4] ! 1 = 2"
    unfolding s1 by (simp add: spec_sac_target_def stub_batch_def sac_agent_def SAC_init_def)
  from a c l(1,2) len s0 v0 v1 ok net bad show ?thesis by (intro conjI)
qed




text \<open>
  Claim C10. \<open>SAC.load_models\<close> never changes the target critic or \<open>log_alpha\<close>;
  \<open>SAC.save_models\<close> writes at most the actor file and the critic file, holding the
  actor's and the critic's parameters. So loading what an agent saved into another
  agent of the same architecture gives that agent the saved actor and critic and leaves
  its own target critic and temperature.
\<close>

theorem sac_persistence_frame:
  "sac_target_critic_net (fst (SAC_load_models s0 fs filename filepath)) = sac_target_critic_net s0 \<and>
   sac_log_alpha (fst (SAC_load_models s0 fs filename filepath)) = sac_log_alpha s0 \<and>
   (\<forall>p. p \<noteq> model_path filepath filename ''_actor.pht'' \<and>
        p \<noteq> model_path filepath filename ''_critic.pht'' \<longrightarrow>
        fs_files (fst (SAC_save_models s fs filename filepath)) p = fs_files fs p) \<and>
   (\<forall>p obj. fs_files (fst (SAC_save_models s fs filename filepath)) p = Some obj \<longrightarrow>
        fs_files fs p = Some obj \<or> obj = sac_actor_net s \<or> obj = sac_critic_net s) \<and>
   (snd (SAC_save_models s fs filename filepath) = None \<and>
    map length (sac_actor_net s) = map length (sac_actor_net s0) \<and>
    map length (sac_critic_net s) = map length (sac_critic_net s0) \<longrightarrow>
      SAC_load_models s0 (fst (SAC_save_models s fs filename filepath)) filename filepath =
        (s0\<lparr>sac_actor_net := sac_actor_net s, sac_critic_net := sac_critic_net s\<rparr>, None))"
proof -
  have files: "fs_files (fst (SAC_save_models s fs filename filepath)) p = fs_files fs p"
    if "p \<noteq> model_path filepath filename ''_actor.pht''"
       "p \<noteq> model_path filepath filename ''_critic.pht''" for p
    using SAC_save_models_files[of s fs filename filepath p] that by blast
  have content: "fs_files fs p = Some obj \<or> obj = sac_actor_net s \<or> obj = sac_critic_net s"
    if "fs_files (fst (SAC_save_models s fs filename filepath)) p = Some obj" for p obj
    using SAC_save_models_files[of s fs filename filepath p] that by auto
  have trip: "SAC_load_models s0 (fst (SAC_save_models s fs filename filepath)) filename filepath =
        (s0\<lparr>sac_actor_net := sac_actor_net s, sac_critic_net := sac_critic_net s\<rparr>, None)"
    if "snd (SAC_save_models s fs filename filepath) = None"
      "map length (sac_actor_net s) = map length (sac_actor_net s0)"
      "map length (sac_critic_net s) = map length (sac_critic_net s0)"
    using SAC_save_models_saved[OF that(1)] that(2,3) by (intro SAC_load_models_ok) simp_all
  have f: "\<forall>p. p \<noteq> model_path filepath filename ''_actor.pht'' \<and>
        p \<noteq> model_path filepath filename ''_critic.pht'' \<longrightarrow>
        fs_files (fst (SAC_save_models s fs filename filepath)) p = fs_files fs p"
    using files by simp
  have g: "\<forall>p obj. fs_files (fst (SAC_save_models s fs filename filepath)) p = Some obj \<longrightarrow>
        fs_files fs p = Some obj \<or> obj = sac_actor_net s \<or> obj = sac_critic_net s"
    using content by (intro allI impI)
  have h: "snd (SAC_save_models s fs filename filepath) = None \<and>
    map length (sac_actor_net s) = map length (sac_actor_net s0) \<and>
    map length (sac_critic_net s) = map length (sac_critic_net s0) \<longrightarrow>
      SAC_load_models s0 (fst (SAC_save_models s fs filename filepath)) filename filepath =
        (s0\<lparr>sac_actor_net := sac_actor_net s, sac_critic_net := sac_critic_net s\<rparr>, None)"
    using trip by (intro impI) (elim conjE)
  from SAC_load_models_frame[of s0 fs filename filepath] f g h
  show ?thesis by (intro conjI)
qed

text \<open>
  A trained agent saved and restored into a fresh one: the target critic and
  \<open>log_alpha\<close> of the result are the fresh ones, not the trained ones.
\<close>

theorem sac_persistence_frame_witness:
  "snd (SAC_save_models sac_trained empty_fs ''run'' ''models'') = None \<and>
   map length (sac_actor_net sac_trained) = map length (sac_actor_net sac_agent) \<and>
   map length (sac_critic_net sac_trained) = map length (sac_critic_net sac_agent) \<and>
   SAC_load_models sac_agent (fst (SAC_save_models sac_trained empty_fs ''run'' ''models''))
       ''run'' ''models'' =
     (sac_agent\<lparr>sac_actor_net := sac_actor_net sac_trained,
                 sac_critic_net := sac_critic_net sac_trained\<rparr>, None) \<and>
   sac_target_critic_net (fst (SAC_load_models sac_agent
       (fst (SAC_save_models sac_trained empty_fs ''run'' ''models'')) ''run'' ''models'')) = [[1]] \<and>
   sac_target_critic_net sac_trained = [[7]] \<and>
   sac_log_alpha (fst (SAC_load_models sac_agent
       (fst (SAC_save_models sac_trained empty_fs ''run'' ''models'')) ''run'' ''models'')) = 0 \<and>
   sac_log_alpha sac_trained = 1 / 2"
proof -
  have anc: "ancestors ''models'' = []" by code_simp
  have s: "snd (SAC_save_models sac_trained empty_fs ''run'' ''models'') = None"
    using SAC_save_models_ok[of empty_fs "''models''" "''run''" sac_trained] fs_ok_empty
    by (simp add: anc empty_fs_def os_path_exists_def)
  have sh: "map length (sac_actor_net sac_trained) = map length (sac_actor_net sac_agent)"
    "map length (sac_critic_net sac_trained) = map length (sac_critic_net sac_agent)"
    by (simp_all add: sac_trained_def sac_agent_def SAC_init_def)
  note th = sac_persistence_frame[where ?s0.0 = sac_agent and s = sac_trained and fs = empty_fs
      and filename = "''run''" and filepath = "''models''"]
  note th2 = sac_persistence_frame[where ?s0.0 = sac_agent and s = sac_trained
      and fs = "fst (SAC_save_models sac_trained empty_fs ''run'' ''models'')"
      and filename = "''run''" and filepath = "''models''"]
  from th s sh have
    trip: "SAC_load_models sac_agent (fst (SAC_save_models sac_trained empty_fs ''run'' ''models''))
       ''run'' ''models'' =
     (sac_agent\<lparr>sac_actor_net := sac_actor_net sac_trained,
                 sac_critic_net := sac_critic_net sac_trained\<rparr>, None)"
    by blast
  from th2 have
    t: "sac_target_critic_net (fst (SAC_load_models sac_agent
       (fst (SAC_save_models sac_trained empty_fs ''run'' ''models'')) ''run'' ''models'')) =
       sac_target_critic_net sac_agent"
    and la: "sac_log_alpha (fst (SAC_load_models sac_agent
       (fst (SAC_save_models sac_trained empty_fs ''run'' ''models'')) ''run'' ''models'')) =
       sac_log_alpha sac_agent"
    by blast+
  have t': "sac_target_critic_net (fst (SAC_load_models sac_agent
       (fst (SAC_save_models sac_trained empty_fs ''run'' ''models'')) ''run'' ''models'')) = [[1]]"
    unfolding t by (simp add: sac_agent_def SAC_init_def)
  have la': "sac_log_alpha (fst (SAC_load_models sac_agent
       (fst (SAC_save_models sac_trained empty_fs ''run'' ''models'')) ''run'' ''models'')) = 0"
    unfolding la by (simp add: sac_agent_def SAC_init_def)
  have tr: "sac_target_critic_net sac_trained = [[7]]" "sac_log_alpha sac_trained = 1 / 2"
    by (simp_all add: sac_trained_def)
  from s sh trip t' tr(1) la' tr(2) show ?thesis by (intro conjI)
qed

end
